theory Spec2Isabelle
  imports Main
begin

section \<open>Values shared by the models and the routes\<close>

text \<open>
  A MongoDB ObjectId is modelled as a natural number. A JavaScript string is a
  \<open>string\<close> whose characters are the code points up to U+00FF; a request field that
  may be absent (\<open>undefined\<close>) is a \<open>string option\<close>.
  Timestamps, image variants, location and device metadata are not read by any decision
  of the routes modelled here and are left out of the records.
\<close>

type_synonym oid = nat

text \<open>
  \<open>String.prototype.trim\<close>, which the routes call as \<open>guestName.trim()\<close> and which
  a schema path declared with \<open>trim: true\<close> applies to every value stored under it.
  The white space and line terminator code points of ECMAScript up to U+00FF are the tab,
  line feed, vertical tab, form feed, carriage return, space and the no-break space
  U+00A0; the others lie above U+00FF.
\<close>

definition is_ws :: "char \<Rightarrow> bool" where
  "is_ws c = (c \<in> set [CHR 0x09, CHR 0x0A, CHR 0x0B, CHR 0x0C, CHR 0x0D, CHR 0x20, CHR 0xA0])"

definition trim :: "string \<Rightarrow> string" where
  "trim s = rev (dropWhile is_ws (rev (dropWhile is_ws s)))"

text \<open>Truthiness of an optional string: \<open>undefined\<close> and the empty string are falsy.\<close>

fun truthy :: "string option \<Rightarrow> bool" where
  "truthy None = False"
| "truthy (Some s) = (s \<noteq> [])"

datatype error =
    BadRequest string
  | Unauthorized string
  | Forbidden string
  | NotFound string
  | TooManyRequests
  | ValidationError
  | DocumentNotFoundError
  | SaveError string
  | TypeError
  | StorageError
  | MongoError

section \<open>The Media model (second module of src/unnamed/part_001)\<close>

record like =
  like_guestName :: string

record comment =
  c_guestName :: string
  c_message :: string
  isApproved :: bool

datatype uploader_type = guest | host | photographer

record uploader =
  u_type :: uploader_type
  userId :: "oid option"
  u_guestName :: string
  guestEmail :: "string option"

text \<open>
  The seven paths declared \<open>required: true\<close> are optional fields here: a document
  under construction may lack them, and \<open>save\<close> rejects it then.
\<close>

record media =
  m_id :: oid
  m_event :: oid
  m_uploader :: uploader
  fileName :: "string option"
  originalName :: "string option"
  fileType :: "string option"
  mimeType :: "string option"
  fileSize :: "nat option"
  url :: "string option"
  cloudinaryPublicId :: "string option"
  album :: string
  caption :: string
  tags :: "string list"
  likes :: "like list"
  comments :: "comment list"
  views :: nat
  downloads :: nat
  status :: string
  isHidden :: bool
  isFeatured :: bool

text \<open>The virtuals \<open>likeCount\<close> and \<open>commentCount\<close>.\<close>

definition likeCount :: "media \<Rightarrow> nat" where
  "likeCount m = length (likes m)"

definition commentCount :: "media \<Rightarrow> nat" where
  "commentCount m = length (filter isApproved (comments m))"

text \<open>
  Validation run by \<open>save()\<close>: required paths, the enums of \<open>fileType\<close> and
  \<open>status\<close>, the \<open>maxlength\<close> of the caption, and the required name and bounded
  message of every comment.
\<close>

definition comment_valid :: "comment \<Rightarrow> bool" where
  "comment_valid c =
     (c_guestName c \<noteq> [] \<and> c_message c \<noteq> [] \<and> length (c_message c) \<le> 300)"

definition status_enum :: "string list" where
  "status_enum = [''pending'', ''approved'', ''rejected'']"

definition media_valid :: "media \<Rightarrow> bool" where
  "media_valid m =
     (truthy (fileName m) \<and> truthy (originalName m) \<and> truthy (mimeType m)
      \<and> fileSize m \<noteq> None \<and> truthy (url m) \<and> truthy (cloudinaryPublicId m)
      \<and> (case fileType m of None \<Rightarrow> False
          | Some t \<Rightarrow> t \<in> set [''image'', ''video'', ''audio''])
      \<and> status m \<in> set status_enum
      \<and> length (caption m) \<le> 500
      \<and> list_all comment_valid (comments m))"

section \<open>The database\<close>

record guestbook =
  g_id :: oid
  g_event :: oid
  g_guestName :: string
  g_guestEmail :: "string option"
  messageType :: string
  textMessage :: "string option"
  audio_url :: "string option"
  audio_cloudinaryPublicId :: "string option"
  g_likes :: "like list"
  replies :: "comment list"
  g_status :: string
  g_isHidden :: bool
  isPinned :: bool

record event =
  e_id :: oid
  e_host :: oid
  photographers :: "oid list"
  moderateUploads :: bool
  allowDownloads :: bool
  enableGuestbook :: bool
  enableAudioMessages :: bool
  isActive :: bool
  isPublished :: bool
  isPasswordProtected :: bool
  password :: "string option"
  totalPhotos :: int
  totalVideos :: int
  totalGuestbookEntries :: int
  totalLikes :: int
  totalComments :: int

record user =
  usr_id :: oid
  role :: string

text \<open>
  The three collections, in insertion order. The connection to the database is taken to
  work: a query, an update or a delete that reaches it is carried out.
\<close>

record db =
  medias :: "media list"
  guestbooks :: "guestbook list"
  events :: "event list"

definition findMedia :: "db \<Rightarrow> oid \<Rightarrow> media option" where
  "findMedia d i = find (\<lambda>m. m_id m = i) (medias d)"

definition findEntry :: "db \<Rightarrow> oid \<Rightarrow> guestbook option" where
  "findEntry d i = find (\<lambda>g. g_id g = i) (guestbooks d)"

definition findEvent :: "db \<Rightarrow> oid \<Rightarrow> event option" where
  "findEvent d i = find (\<lambda>e. e_id e = i) (events d)"

text \<open>
  \<open>save()\<close> validates the document and then writes it. For a document that was loaded
  from the collection (\<open>media_save\<close>) the write is an update of the record with its
  id, and it fails with \<open>DocumentNotFoundError\<close> when no such record is stored any more.
  For a document built with \<open>new Media(...)\<close> (\<open>media_save_new\<close>) the write is an
  insert.
\<close>

definition replace_media :: "media \<Rightarrow> media list \<Rightarrow> media list" where
  "replace_media m ms = map (\<lambda>x. if m_id x = m_id m then m else x) ms"

definition media_save :: "media \<Rightarrow> db \<Rightarrow> error + media \<times> db" where
  "media_save m d =
     (if \<not> media_valid m then Inl ValidationError
      else if m_id m \<notin> m_id ` set (medias d) then Inl DocumentNotFoundError
      else Inr (m, d\<lparr>medias := replace_media m (medias d)\<rparr>))"

definition media_save_new :: "media \<Rightarrow> db \<Rightarrow> error + media \<times> db" where
  "media_save_new m d =
     (if \<not> media_valid m then Inl ValidationError
      else Inr (m, d\<lparr>medias := medias d @ [m]\<rparr>))"

section \<open>Messages sent to an event's room\<close>

datatype message =
    NewMedia media oid
  | NewGuestbookEntry guestbook oid
  | MediaApproved "media option" oid
  | GuestbookApproved "guestbook option" oid
  | MediaDeleted oid oid
  | GuestbookDeleted oid oid
  | MediaLiked oid nat string
  | GuestbookLiked oid nat string
  | NewComment oid string string
  | NewGuestbookReply oid string string

text \<open>
  What a handler does besides changing the database, in the order it does it:
  \<open>Emit r msg\<close> is \<open>io.to(r).emit(...)\<close>, \<open>StorageDelete p t\<close> a call of
  \<open>deleteFile(p, t)\<close>, \<open>LogError\<close> a \<open>console.error\<close> of a caught exception,
  \<open>DbDelete i\<close> the removal of document \<open>i\<close> from its collection.
\<close>

datatype effect =
    Emit oid message
  | StorageDelete "string option" string
  | LogError
  | DbDelete oid

section \<open>Access to an event\<close>

text \<open>
  The middleware \<open>validateEventAccess\<close> (middleware/auth.js, in src/unnamed/part_010).
  \<open>eventId\<close> is \<open>req.params.eventId\<close>, \<open>None\<close> when the path of the route has
  no \<open>:eventId\<close>: \<open>Event.findById(undefined)\<close> finds nothing. \<open>providedPassword\<close>
  is the \<open>x-event-password\<close> header or, without it, \<open>eventPassword\<close> of the body.
  On success the event becomes \<open>req.event\<close>.
\<close>

definition validateEventAccess :: "oid option \<Rightarrow> string option \<Rightarrow> db \<Rightarrow> error + event" where
  "validateEventAccess eventId providedPassword d =
     (case (case eventId of None \<Rightarrow> None | Some i \<Rightarrow> findEvent d i) of
        None \<Rightarrow> Inl (NotFound ''Event not found or not available'')
      | Some ev \<Rightarrow>
          if isActive ev \<and> isPublished ev
          then (if isPasswordProtected ev
                then (if truthy providedPassword \<and> providedPassword = password ev
                      then Inr ev
                      else Inl (Unauthorized ''Event password required''))
                else Inr ev)
          else Inl (NotFound ''Event not found or not available''))"

text \<open>
  The middleware \<open>requireEventOwnership\<close>, for the user that \<open>authenticateToken\<close>
  left in \<open>req.user\<close>; \<open>eventId\<close> is \<open>req.params.eventId || req.body.eventId\<close>.
\<close>

definition requireEventOwnership :: "user \<Rightarrow> oid option \<Rightarrow> db \<Rightarrow> error + event" where
  "requireEventOwnership u eventId d =
     (case eventId of
        None \<Rightarrow> Inl (BadRequest ''Event ID required'')
      | Some i \<Rightarrow>
          (case findEvent d i of
             None \<Rightarrow> Inl (NotFound ''Event not found'')
           | Some ev \<Rightarrow>
               if e_host ev \<noteq> usr_id u \<and> usr_id u \<notin> set (photographers ev)
                  \<and> role u \<noteq> ''admin''
               then Inl (Forbidden ''Access denied to this event'')
               else Inr ev))"

text \<open>
  \<open>userRateLimit\<close> answers 429 when the caller has used up the requests of the current
  window; \<open>within_limit\<close> tells whether the request is still within them.
\<close>

definition userRateLimit :: "bool \<Rightarrow> error + unit" where
  "userRateLimit within_limit = (if within_limit then Inr () else Inl TooManyRequests)"

section \<open>Likes\<close>

text \<open>
  \<open>mediaSchema.methods.addLike\<close>. The pushed subdocument's \<open>guestName\<close> path is
  declared \<open>trim: true\<close>, so the stored name is the trimmed one, while the search for an
  existing like compares the stored names with the argument as given.
\<close>

definition addLike :: "string \<Rightarrow> media \<Rightarrow> db \<Rightarrow> error + media \<times> db" where
  "addLike name m d =
     (case find (\<lambda>l. like_guestName l = name) (likes m) of
        None \<Rightarrow> media_save (m\<lparr>likes := likes m @ [\<lparr>like_guestName = trim name\<rparr>]\<rparr>) d
      | Some existingLike \<Rightarrow> Inr (m, d))"


text \<open>
  The handler of \<open>POST /:mediaId/like\<close> of routes/media.js, for the event \<open>ev\<close> that
  is \<open>req.event\<close>. The result holds the new database, the emissions and the
  \<open>likeCount\<close> of the response body.
\<close>

definition like_media_handler ::
  "event \<Rightarrow> oid \<Rightarrow> string option \<Rightarrow> db \<Rightarrow> error + db \<times> effect list \<times> nat" where
  "like_media_handler ev mediaId guestName d =
     (case guestName of
        None \<Rightarrow> Inl (BadRequest ''Guest name is required'')
      | Some name \<Rightarrow>
          if name = [] \<or> trim name = [] then Inl (BadRequest ''Guest name is required'')
          else (case findMedia d mediaId of
            None \<Rightarrow> Inl (NotFound ''Media not found'')
          | Some m \<Rightarrow>
              if m_event m \<noteq> e_id ev
              then Inl (Forbidden ''Media does not belong to this event'')
              else (case addLike (trim name) m d of
                Inl e \<Rightarrow> Inl e
              | Inr (m', d') \<Rightarrow>
                  Inr (d',
                       [Emit (e_id ev) (MediaLiked (m_id m') (likeCount m' + 1) (trim name))],
                       likeCount m' + 1))))"

text \<open>
  The route \<open>POST /:mediaId/like\<close> as mounted: \<open>validateEventAccess\<close>, then
  \<open>userRateLimit(50, ...)\<close>, then the handler. The path has no \<open>:eventId\<close>, so the
  middleware looks the event up under \<open>undefined\<close>.
\<close>

definition like_media ::
  "bool \<Rightarrow> string option \<Rightarrow> oid \<Rightarrow> string option \<Rightarrow> db
     \<Rightarrow> error + db \<times> effect list \<times> nat" where
  "like_media within_limit providedPassword mediaId guestName d =
     (case validateEventAccess None providedPassword d of
        Inl e \<Rightarrow> Inl e
      | Inr ev \<Rightarrow>
          (case userRateLimit within_limit of
             Inl e \<Rightarrow> Inl e
           | Inr ok \<Rightarrow> like_media_handler ev mediaId guestName d))"


section \<open>The Guestbook model (first module of src/unnamed/part_001)\<close>

definition g_likeCount :: "guestbook \<Rightarrow> nat" where
  "g_likeCount g = length (g_likes g)"

definition replyCount :: "guestbook \<Rightarrow> nat" where
  "replyCount g = length (filter isApproved (replies g))"

text \<open>Schema validation of an entry, then the \<open>pre('save')\<close> hook on the message content.\<close>

definition guestbook_valid :: "guestbook \<Rightarrow> bool" where
  "guestbook_valid g =
     (g_guestName g \<noteq> [] \<and> length (g_guestName g) \<le> 100
      \<and> (case textMessage g of None \<Rightarrow> True | Some t \<Rightarrow> length t \<le> 1000)
      \<and> messageType g \<in> set [''text'', ''audio'', ''mixed'']
      \<and> g_status g \<in> set status_enum
      \<and> list_all comment_valid (replies g))"

definition pre_save :: "guestbook \<Rightarrow> string option" where
  "pre_save g =
     (if messageType g = ''text'' \<and> \<not> truthy (textMessage g)
      then Some ''Text message is required for text type entries''
      else if messageType g = ''audio'' \<and> \<not> truthy (audio_url g)
      then Some ''Audio message is required for audio type entries''
      else if messageType g = ''mixed'' \<and> \<not> truthy (textMessage g) \<and> \<not> truthy (audio_url g)
      then Some ''Either text or audio message is required for mixed type entries''
      else None)"

definition replace_entry :: "guestbook \<Rightarrow> guestbook list \<Rightarrow> guestbook list" where
  "replace_entry g gs = map (\<lambda>x. if g_id x = g_id g then g else x) gs"

text \<open>As for media: \<open>guestbook_save\<close> for a loaded entry, \<open>guestbook_save_new\<close> for a new one.\<close>

definition guestbook_save :: "guestbook \<Rightarrow> db \<Rightarrow> error + guestbook \<times> db" where
  "guestbook_save g d =
     (if \<not> guestbook_valid g then Inl ValidationError
      else (case pre_save g of
        Some msg \<Rightarrow> Inl (SaveError msg)
      | None \<Rightarrow>
          if g_id g \<notin> g_id ` set (guestbooks d) then Inl DocumentNotFoundError
          else Inr (g, d\<lparr>guestbooks := replace_entry g (guestbooks d)\<rparr>)))"

definition guestbook_save_new :: "guestbook \<Rightarrow> db \<Rightarrow> error + guestbook \<times> db" where
  "guestbook_save_new g d =
     (if \<not> guestbook_valid g then Inl ValidationError
      else (case pre_save g of
        Some msg \<Rightarrow> Inl (SaveError msg)
      | None \<Rightarrow> Inr (g, d\<lparr>guestbooks := guestbooks d @ [g]\<rparr>)))"

text \<open>\<open>guestbookSchema.methods.addLike\<close> and \<open>removeLike\<close>, as for media.\<close>

definition g_addLike :: "string \<Rightarrow> guestbook \<Rightarrow> db \<Rightarrow> error + guestbook \<times> db" where
  "g_addLike name g d =
     (case find (\<lambda>l. like_guestName l = name) (g_likes g) of
        None \<Rightarrow> guestbook_save (g\<lparr>g_likes := g_likes g @ [\<lparr>like_guestName = trim name\<rparr>]\<rparr>) d
      | Some existingLike \<Rightarrow> Inr (g, d))"


text \<open>The handler of \<open>POST /entry/:entryId/like\<close> of routes/guestbook.js.\<close>

definition like_entry_handler ::
  "event \<Rightarrow> oid \<Rightarrow> string option \<Rightarrow> db \<Rightarrow> error + db \<times> effect list \<times> nat" where
  "like_entry_handler ev entryId guestName d =
     (case guestName of
        None \<Rightarrow> Inl (BadRequest ''Guest name is required'')
      | Some name \<Rightarrow>
          if name = [] \<or> trim name = [] then Inl (BadRequest ''Guest name is required'')
          else (case findEntry d entryId of
            None \<Rightarrow> Inl (NotFound ''Guestbook entry not found'')
          | Some g \<Rightarrow>
              if g_event g \<noteq> e_id ev
              then Inl (Forbidden ''Entry does not belong to this event'')
              else (case g_addLike (trim name) g d of
                Inl e \<Rightarrow> Inl e
              | Inr (g', d') \<Rightarrow>
                  Inr (d',
                       [Emit (e_id ev) (GuestbookLiked (g_id g') (g_likeCount g' + 1) (trim name))],
                       g_likeCount g' + 1))))"

text \<open>
  The route \<open>POST /entry/:entryId/like\<close> as mounted; its path has no \<open>:eventId\<close>
  either.
\<close>

definition like_entry ::
  "bool \<Rightarrow> string option \<Rightarrow> oid \<Rightarrow> string option \<Rightarrow> db
     \<Rightarrow> error + db \<times> effect list \<times> nat" where
  "like_entry within_limit providedPassword entryId guestName d =
     (case validateEventAccess None providedPassword d of
        Inl e \<Rightarrow> Inl e
      | Inr ev \<Rightarrow>
          (case userRateLimit within_limit of
             Inl e \<Rightarrow> Inl e
           | Inr ok \<Rightarrow> like_entry_handler ev entryId guestName d))"

section \<open>Ownership\<close>

text \<open>
  What \<open>populate('event', fields)\<close> makes of the referenced event: \<open>None\<close> when no
  such event is stored, and otherwise a document that holds only the selected paths
  (all of them when no selection is given). The routes read \<open>host\<close> and
  \<open>photographers\<close> from it.
\<close>

record populated_event =
  p_id :: oid
  p_host :: "oid option"
  p_photographers :: "oid list option"
  p_allowDownloads :: "bool option"

definition selected :: "string list option \<Rightarrow> string \<Rightarrow> bool" where
  "selected sel path = (case sel of None \<Rightarrow> True | Some paths \<Rightarrow> path \<in> set paths)"

definition populate :: "string list option \<Rightarrow> db \<Rightarrow> oid \<Rightarrow> populated_event option" where
  "populate sel d i =
     (case findEvent d i of
        None \<Rightarrow> None
      | Some ev \<Rightarrow> Some
          \<lparr>p_id = e_id ev,
           p_host = (if selected sel ''host'' then Some (e_host ev) else None),
           p_photographers =
             (if selected sel ''photographers'' then Some (photographers ev) else None),
           p_allowDownloads =
             (if selected sel ''privacy'' then Some (allowDownloads ev) else None)\<rparr>)"

text \<open>
  \<open>event.host.toString() === req.user._id.toString() ||
  event.photographers.includes(req.user._id)\<close> on a populated event: a \<open>TypeError\<close>
  when \<open>event.host\<close> is \<open>undefined\<close>, and the second operand is evaluated only when
  the first is false. Where \<open>event\<close> itself is \<open>null\<close> the routes raise the same
  error at \<open>event.host\<close>.
\<close>

definition isOwner :: "populated_event \<Rightarrow> user \<Rightarrow> error + bool" where
  "isOwner ev u =
     (case p_host ev of
        None \<Rightarrow> Inl TypeError
      | Some h \<Rightarrow>
          if h = usr_id u then Inr True
          else (case p_photographers ev of
             None \<Rightarrow> Inl TypeError
           | Some ps \<Rightarrow> Inr (usr_id u \<in> set ps)))"

section \<open>Moderation updates\<close>

text \<open>
  The \<open>updateData\<close> object of the update and bulk routes: an absent key leaves the path
  as it is. The update is written without running validators, so any string can be
  stored as a status; the \<open>trim\<close> setters of \<open>caption\<close> and \<open>tags\<close> apply.
\<close>

record media_update =
  upd_caption :: "string option"
  upd_album :: "string option"
  upd_tags :: "string list option"
  upd_status :: "string option"
  upd_isFeatured :: "bool option"
  upd_isHidden :: "bool option"

definition no_update :: media_update where
  "no_update = \<lparr>upd_caption = None, upd_album = None, upd_tags = None, upd_status = None,
                 upd_isFeatured = None, upd_isHidden = None\<rparr>"

definition apply_media_update :: "media_update \<Rightarrow> media \<Rightarrow> media" where
  "apply_media_update up m =
     m\<lparr>caption := (case upd_caption up of None \<Rightarrow> caption m | Some c \<Rightarrow> trim c),
       album := (case upd_album up of None \<Rightarrow> album m | Some a \<Rightarrow> a),
       tags := (case upd_tags up of None \<Rightarrow> tags m | Some ts \<Rightarrow> map trim ts),
       status := (case upd_status up of None \<Rightarrow> status m | Some s \<Rightarrow> s),
       isFeatured := (case upd_isFeatured up of None \<Rightarrow> isFeatured m | Some b \<Rightarrow> b),
       isHidden := (case upd_isHidden up of None \<Rightarrow> isHidden m | Some b \<Rightarrow> b)\<rparr>"

record entry_update =
  gupd_status :: "string option"
  gupd_isPinned :: "bool option"
  gupd_isHidden :: "bool option"

definition apply_entry_update :: "entry_update \<Rightarrow> guestbook \<Rightarrow> guestbook" where
  "apply_entry_update up g =
     g\<lparr>g_status := (case gupd_status up of None \<Rightarrow> g_status g | Some s \<Rightarrow> s),
       isPinned := (case gupd_isPinned up of None \<Rightarrow> isPinned g | Some b \<Rightarrow> b),
       g_isHidden := (case gupd_isHidden up of None \<Rightarrow> g_isHidden g | Some b \<Rightarrow> b)\<rparr>"

text \<open>\<open>tags.split(',')\<close>.\<close>

fun split_comma :: "string \<Rightarrow> string list" where
  "split_comma [] = [[]]"
| "split_comma (c # cs) =
     (if c = CHR '','' then [] # split_comma cs
      else (case split_comma cs of [] \<Rightarrow> [[c]] | w # ws \<Rightarrow> (c # w) # ws))"









section \<open>Deleting one item\<close>

text \<open>
  \<open>storage_ok p\<close> tells whether Cloudinary's \<open>destroy\<close> of \<open>p\<close> succeeds; when it
  does not, \<open>deleteFile\<close> rethrows and the route's \<open>catch\<close> logs the error.
\<close>

definition try_delete :: "(string option \<Rightarrow> bool) \<Rightarrow> string option \<Rightarrow> string \<Rightarrow> effect list" where
  "try_delete storage_ok publicId resourceType =
     StorageDelete publicId resourceType # (if storage_ok publicId then [] else [LogError])"

definition update_event :: "oid \<Rightarrow> (event \<Rightarrow> event) \<Rightarrow> db \<Rightarrow> db" where
  "update_event i f d = d\<lparr>events := map (\<lambda>e. if e_id e = i then f e else e) (events d)\<rparr>"

text \<open>
  \<open>DELETE /:mediaId\<close> of routes/media.js. Ids are the collection's unique keys, so
  \<open>findByIdAndDelete\<close> removes what carries the id.
\<close>

definition delete_media ::
  "(string option \<Rightarrow> bool) \<Rightarrow> user \<Rightarrow> oid \<Rightarrow> db \<Rightarrow> error + db \<times> effect list" where
  "delete_media storage_ok u mediaId d =
     (case findMedia d mediaId of
        None \<Rightarrow> Inl (NotFound ''Media not found'')
      | Some m \<Rightarrow>
          (case populate None d (m_event m) of
             None \<Rightarrow> Inl TypeError
           | Some ev \<Rightarrow>
          (case isOwner ev u of
             Inl e \<Rightarrow> Inl e
           | Inr False \<Rightarrow> Inl (Forbidden ''Permission denied'')
           | Inr True \<Rightarrow>
               let d1 = d\<lparr>medias := filter (\<lambda>x. m_id x \<noteq> mediaId) (medias d)\<rparr>;
                   d2 = update_event (p_id ev)
                          (\<lambda>e. if fileType m = Some ''image''
                                then e\<lparr>totalPhotos := totalPhotos e - 1\<rparr>
                                else if fileType m = Some ''video''
                                then e\<lparr>totalVideos := totalVideos e - 1\<rparr>
                                else e) d1
               in Inr (d2,
                       try_delete storage_ok (cloudinaryPublicId m)
                         (if fileType m = Some ''video'' then ''video'' else ''image'')
                       @ [DbDelete mediaId,
                          Emit (p_id ev) (MediaDeleted (m_id m) (p_id ev))]))))"

text \<open>\<open>DELETE /entry/:entryId\<close> of routes/guestbook.js.\<close>

definition delete_entry ::
  "(string option \<Rightarrow> bool) \<Rightarrow> user \<Rightarrow> oid \<Rightarrow> db \<Rightarrow> error + db \<times> effect list" where
  "delete_entry storage_ok u entryId d =
     (case findEntry d entryId of
        None \<Rightarrow> Inl (NotFound ''Guestbook entry not found'')
      | Some g \<Rightarrow>
          (case populate None d (g_event g) of
             None \<Rightarrow> Inl TypeError
           | Some ev \<Rightarrow>
          (case isOwner ev u of
             Inl e \<Rightarrow> Inl e
           | Inr False \<Rightarrow> Inl (Forbidden ''Permission denied'')
           | Inr True \<Rightarrow>
               let d1 = d\<lparr>guestbooks := filter (\<lambda>x. g_id x \<noteq> entryId) (guestbooks d)\<rparr>;
                   d2 = update_event (p_id ev)
                          (\<lambda>e. e\<lparr>totalGuestbookEntries := totalGuestbookEntries e - 1\<rparr>) d1
               in Inr (d2,
                       (if truthy (audio_cloudinaryPublicId g)
                        then try_delete storage_ok (audio_cloudinaryPublicId g) ''raw''
                        else [])
                       @ [DbDelete entryId,
                          Emit (p_id ev) (GuestbookDeleted (g_id g) (p_id ev))]))))"

section \<open>Comments and replies\<close>

text \<open>\<open>mediaSchema.methods.addComment\<close> and \<open>guestbookSchema.methods.addReply\<close>.\<close>

definition addComment :: "string \<Rightarrow> string \<Rightarrow> bool \<Rightarrow> media \<Rightarrow> db \<Rightarrow> error + media \<times> db" where
  "addComment guestName message needsApproval m d =
     media_save
       (m\<lparr>comments := comments m @
            [\<lparr>c_guestName = trim guestName, c_message = trim message,
              isApproved = (\<not> needsApproval)\<rparr>]\<rparr>) d"

definition addReply :: "string \<Rightarrow> string \<Rightarrow> bool \<Rightarrow> guestbook \<Rightarrow> db \<Rightarrow> error + guestbook \<times> db" where
  "addReply guestName message needsApproval g d =
     guestbook_save
       (g\<lparr>replies := replies g @
            [\<lparr>c_guestName = trim guestName, c_message = trim message,
              isApproved = (\<not> needsApproval)\<rparr>]\<rparr>) d"

text \<open>
  The validation chain of both routes: \<open>guestName\<close> trimmed and at least one character,
  \<open>message\<close> trimmed and between 1 and 300 characters; an absent field counts as the
  empty string. The chain leaves the trimmed values in the request body.
\<close>

definition body_field :: "string option \<Rightarrow> string" where
  "body_field v = trim (case v of None \<Rightarrow> [] | Some s \<Rightarrow> s)"

definition comment_body_ok :: "string option \<Rightarrow> string option \<Rightarrow> bool" where
  "comment_body_ok guestName message =
     (1 \<le> length (body_field guestName)
      \<and> 1 \<le> length (body_field message) \<and> length (body_field message) \<le> 300)"

text \<open>
  The validation chain and handler of \<open>POST /:mediaId/comments\<close> of routes/media.js,
  for the event \<open>ev\<close> that is \<open>req.event\<close>.
\<close>

definition comment_media_handler ::
  "event \<Rightarrow> oid \<Rightarrow> string option \<Rightarrow> string option \<Rightarrow> db \<Rightarrow> error + db \<times> effect list" where
  "comment_media_handler ev mediaId guestName message d =
     (if \<not> comment_body_ok guestName message then Inl (BadRequest ''Validation failed'')
      else (case findMedia d mediaId of
        None \<Rightarrow> Inl (NotFound ''Media not found'')
      | Some m \<Rightarrow>
          if m_event m \<noteq> e_id ev
          then Inl (Forbidden ''Media does not belong to this event'')
          else
            let needsApproval = moderateUploads ev in
            (case addComment (trim (body_field guestName)) (trim (body_field message))
                    needsApproval m d of
               Inl e \<Rightarrow> Inl e
             | Inr (m', d') \<Rightarrow>
                 Inr (d',
                      if \<not> needsApproval
                      then [Emit (e_id ev)
                              (NewComment (m_id m') (trim (body_field guestName))
                                 (trim (body_field message)))]
                      else []))))"

text \<open>
  The route \<open>POST /:mediaId/comments\<close> as mounted: \<open>validateEventAccess\<close>,
  \<open>userRateLimit(30, ...)\<close>, then the validation chain and the handler. The path has no
  \<open>:eventId\<close>.
\<close>

definition comment_media ::
  "bool \<Rightarrow> string option \<Rightarrow> oid \<Rightarrow> string option \<Rightarrow> string option \<Rightarrow> db
     \<Rightarrow> error + db \<times> effect list" where
  "comment_media within_limit providedPassword mediaId guestName message d =
     (case validateEventAccess None providedPassword d of
        Inl e \<Rightarrow> Inl e
      | Inr ev \<Rightarrow>
          (case userRateLimit within_limit of
             Inl e \<Rightarrow> Inl e
           | Inr ok \<Rightarrow> comment_media_handler ev mediaId guestName message d))"

text \<open>The validation chain and handler of \<open>POST /entry/:entryId/replies\<close> of routes/guestbook.js.\<close>

definition reply_entry_handler ::
  "event \<Rightarrow> oid \<Rightarrow> string option \<Rightarrow> string option \<Rightarrow> db \<Rightarrow> error + db \<times> effect list" where
  "reply_entry_handler ev entryId guestName message d =
     (if \<not> comment_body_ok guestName message then Inl (BadRequest ''Validation failed'')
      else (case findEntry d entryId of
        None \<Rightarrow> Inl (NotFound ''Guestbook entry not found'')
      | Some g \<Rightarrow>
          if g_event g \<noteq> e_id ev
          then Inl (Forbidden ''Entry does not belong to this event'')
          else
            let needsApproval = moderateUploads ev in
            (case addReply (trim (body_field guestName)) (trim (body_field message))
                    needsApproval g d of
               Inl e \<Rightarrow> Inl e
             | Inr (g', d') \<Rightarrow>
                 Inr (d',
                      if \<not> needsApproval
                      then [Emit (e_id ev)
                              (NewGuestbookReply (g_id g') (trim (body_field guestName))
                                 (trim (body_field message)))]
                      else []))))"

text \<open>
  The route \<open>POST /entry/:entryId/replies\<close> as mounted, with \<open>userRateLimit(20, ...)\<close>;
  the path has no \<open>:eventId\<close>.
\<close>

definition reply_entry ::
  "bool \<Rightarrow> string option \<Rightarrow> oid \<Rightarrow> string option \<Rightarrow> string option \<Rightarrow> db
     \<Rightarrow> error + db \<times> effect list" where
  "reply_entry within_limit providedPassword entryId guestName message d =
     (case validateEventAccess None providedPassword d of
        Inl e \<Rightarrow> Inl e
      | Inr ev \<Rightarrow>
          (case userRateLimit within_limit of
             Inl e \<Rightarrow> Inl e
           | Inr ok \<Rightarrow> reply_entry_handler ev entryId guestName message d))"

section \<open>Bulk actions\<close>

definition bulk_updateData :: "string \<Rightarrow> media_update" where
  "bulk_updateData action =
     no_update\<lparr>upd_status := (if action = ''approve'' then Some ''approved''
                               else if action = ''reject'' then Some ''rejected'' else None),
               upd_isFeatured := (if action = ''feature'' then Some True
                                  else if action = ''unfeature'' then Some False else None)\<rparr>"

text \<open>
  \<open>PATCH /bulk-action/:eventId\<close> of routes/media.js, after \<open>authenticateToken\<close> and
  \<open>requireEventOwnership\<close> have let the request through. \<open>mediaIds\<close> is \<open>None\<close> when
  the body holds no array under that key.
\<close>

definition in_bulk :: "oid \<Rightarrow> oid list \<Rightarrow> media \<Rightarrow> bool" where
  "in_bulk eventId ids m = (m_id m \<in> set ids \<and> m_event m = eventId)"

definition bulk_media ::
  "(string option \<Rightarrow> bool) \<Rightarrow> oid \<Rightarrow> oid list option \<Rightarrow> string option \<Rightarrow> db
     \<Rightarrow> error + db \<times> effect list" where
  "bulk_media storage_ok eventId mediaIds action d =
     (case mediaIds of
        None \<Rightarrow> Inl (BadRequest ''Media IDs array is required'')
      | Some ids \<Rightarrow>
          if ids = [] then Inl (BadRequest ''Media IDs array is required'')
          else (case action of
            None \<Rightarrow> Inl (BadRequest ''Invalid action'')
          | Some a \<Rightarrow>
              if a \<notin> set [''approve'', ''reject'', ''delete'', ''feature'', ''unfeature'']
              then Inl (BadRequest ''Invalid action'')
              else if a = ''delete''
              then Inr (d\<lparr>medias := filter (\<lambda>m. \<not> in_bulk eventId ids m) (medias d)\<rparr>,
                        concat (map (\<lambda>m. try_delete storage_ok (cloudinaryPublicId m)
                                            (if fileType m = Some ''video'' then ''video'' else ''image''))
                                  (filter (in_bulk eventId ids) (medias d))))
              else Inr (d\<lparr>medias := map (\<lambda>m. if in_bulk eventId ids m
                                              then apply_media_update (bulk_updateData a) m
                                              else m) (medias d)\<rparr>,
                        [])))"

definition g_bulk_updateData :: "string \<Rightarrow> entry_update" where
  "g_bulk_updateData action =
     \<lparr>gupd_status = (if action = ''approve'' then Some ''approved''
                     else if action = ''reject'' then Some ''rejected'' else None),
      gupd_isPinned = (if action = ''pin'' then Some True
                       else if action = ''unpin'' then Some False else None),
      gupd_isHidden = None\<rparr>"

definition g_in_bulk :: "oid \<Rightarrow> oid list \<Rightarrow> guestbook \<Rightarrow> bool" where
  "g_in_bulk eventId ids g = (g_id g \<in> set ids \<and> g_event g = eventId)"

text \<open>\<open>PATCH /bulk-action/:eventId\<close> of routes/guestbook.js.\<close>

definition bulk_entries ::
  "(string option \<Rightarrow> bool) \<Rightarrow> oid \<Rightarrow> oid list option \<Rightarrow> string option \<Rightarrow> db
     \<Rightarrow> error + db \<times> effect list" where
  "bulk_entries storage_ok eventId entryIds action d =
     (case entryIds of
        None \<Rightarrow> Inl (BadRequest ''Entry IDs array is required'')
      | Some ids \<Rightarrow>
          if ids = [] then Inl (BadRequest ''Entry IDs array is required'')
          else (case action of
            None \<Rightarrow> Inl (BadRequest ''Invalid action'')
          | Some a \<Rightarrow>
              if a \<notin> set [''approve'', ''reject'', ''delete'', ''pin'', ''unpin'']
              then Inl (BadRequest ''Invalid action'')
              else if a = ''delete''
              then
                let entriesToDelete = filter (g_in_bulk eventId ids) (guestbooks d) in
                Inr (update_event eventId
                       (\<lambda>e. e\<lparr>totalGuestbookEntries :=
                                 totalGuestbookEntries e - int (length entriesToDelete)\<rparr>)
                       (d\<lparr>guestbooks := filter (\<lambda>g. \<not> g_in_bulk eventId ids g) (guestbooks d)\<rparr>),
                     concat (map (\<lambda>g. if truthy (audio_cloudinaryPublicId g)
                                        then try_delete storage_ok (audio_cloudinaryPublicId g) ''raw''
                                        else [])
                               entriesToDelete))
              else Inr (d\<lparr>guestbooks := map (\<lambda>g. if g_in_bulk eventId ids g
                                                  then apply_entry_update (g_bulk_updateData a) g
                                                  else g) (guestbooks d)\<rparr>,
                        [])))"

section \<open>Public listings\<close>

text \<open>
  The query of \<open>GET /event/:eventId\<close> of routes/media.js: the event, status
  \<open>approved\<close>, \<open>isHidden\<close> false, and the album, file type and featured filters when
  the request gives them.
\<close>

record list_query =
  q_album :: "string option"
  q_fileType :: "string option"
  q_featured :: "string option"

definition public_match :: "oid \<Rightarrow> list_query \<Rightarrow> media \<Rightarrow> bool" where
  "public_match eventId q m =
     (m_event m = eventId \<and> status m = ''approved'' \<and> isHidden m = False
      \<and> (if truthy (q_album q) \<and> q_album q \<noteq> Some ''All Photos''
          then Some (album m) = q_album q else True)
      \<and> (if truthy (q_fileType q) then fileType m = q_fileType q else True)
      \<and> (if q_featured q = Some ''true'' then isFeatured m = True else True))"

text \<open>
  \<open>.sort(...).limit(limit).skip((page - 1) * limit)\<close> for parsed \<open>page\<close> and
  \<open>limit\<close> that are natural numbers: a limit of 0 is no limit, and the server refuses
  the negative skip of page 0. The sort key stands for the value of the path named by the
  \<open>sort\<close> parameter.
\<close>

definition page_of :: "nat \<Rightarrow> nat \<Rightarrow> 'a list \<Rightarrow> error + 'a list" where
  "page_of page limit xs =
     (if limit = 0 then Inr xs
      else if page = 0 then Inl MongoError
      else Inr (take limit (drop ((page - 1) * limit) xs)))"

definition sorted_by :: "('a \<Rightarrow> int) \<Rightarrow> string \<Rightarrow> 'a list \<Rightarrow> 'a list" where
  "sorted_by key order xs = sort_key (\<lambda>x. if order = ''desc'' then - key x else key x) xs"

definition list_media ::
  "oid \<Rightarrow> list_query \<Rightarrow> (media \<Rightarrow> int) \<Rightarrow> string \<Rightarrow> nat \<Rightarrow> nat \<Rightarrow> db
     \<Rightarrow> error + media list \<times> nat" where
  "list_media eventId q key order page limit d =
     (let matched = filter (public_match eventId q) (medias d) in
      case page_of page limit (sorted_by key order matched) of
        Inl e \<Rightarrow> Inl e
      | Inr ms \<Rightarrow> Inr (map (\<lambda>m. m\<lparr>cloudinaryPublicId := None\<rparr>) ms, length matched))"

text \<open>\<open>GET /:eventId\<close> of routes/guestbook.js, for the event \<open>ev\<close> of the request.\<close>

definition g_public_match :: "oid \<Rightarrow> guestbook \<Rightarrow> bool" where
  "g_public_match eventId g =
     (g_event g = eventId \<and> g_status g = ''approved'' \<and> g_isHidden g = False)"

definition list_entries ::
  "event \<Rightarrow> (guestbook \<Rightarrow> int) \<Rightarrow> string \<Rightarrow> nat \<Rightarrow> nat \<Rightarrow> db
     \<Rightarrow> error + guestbook list \<times> nat" where
  "list_entries ev key order page limit d =
     (if \<not> enableGuestbook ev then Inl (Forbidden ''Guestbook is disabled for this event'')
      else
        let matched = filter (g_public_match (e_id ev)) (guestbooks d) in
        case page_of page limit (sorted_by key order matched) of
          Inl e \<Rightarrow> Inl e
        | Inr gs \<Rightarrow> Inr (gs, length matched))"

section \<open>Reading one item\<close>

definition incrementViews :: "media \<Rightarrow> db \<Rightarrow> error + media \<times> db" where
  "incrementViews m d = media_save (m\<lparr>views := views m + 1\<rparr>) d"

definition incrementDownloads :: "media \<Rightarrow> db \<Rightarrow> error + media \<times> db" where
  "incrementDownloads m d = media_save (m\<lparr>downloads := downloads m + 1\<rparr>) d"

text \<open>
  \<open>GET /:mediaId\<close> of routes/media.js. \<open>req_user\<close> is what \<open>optionalAuth\<close> left in
  \<open>req.user\<close>. The event is populated with the paths \<open>title coupleNames privacy
  settings\<close> only, and \<open>req.user &&\<close> keeps the ownership test from running for a
  request without a user.
\<close>

definition get_media :: "user option \<Rightarrow> oid \<Rightarrow> db \<Rightarrow> error + db \<times> media" where
  "get_media req_user mediaId d =
     (case findMedia d mediaId of
        None \<Rightarrow> Inl (NotFound ''Media not found'')
      | Some m \<Rightarrow>
          (case (case req_user of
                   None \<Rightarrow> Inr False
                 | Some u \<Rightarrow>
                     (case populate (Some [''title'', ''coupleNames'', ''privacy'', ''settings''])
                             d (m_event m) of
                        None \<Rightarrow> Inl TypeError
                      | Some ev \<Rightarrow> isOwner ev u)) of
             Inl e \<Rightarrow> Inl e
           | Inr owner \<Rightarrow>
               if status m \<noteq> ''approved'' \<and> \<not> owner then Inl (NotFound ''Media not found'')
               else (case incrementViews m d of
                 Inl e \<Rightarrow> Inl e
               | Inr (m', d') \<Rightarrow> Inr (d', m'))))"

text \<open>\<open>GET /entry/:entryId\<close> of routes/guestbook.js: no middleware, no test of the entry.\<close>

definition get_entry :: "oid \<Rightarrow> db \<Rightarrow> error + guestbook" where
  "get_entry entryId d =
     (case findEntry d entryId of
        None \<Rightarrow> Inl (NotFound ''Guestbook entry not found'')
      | Some entry \<Rightarrow> Inr entry)"

text \<open>
  \<open>GET /:mediaId/download\<close> of routes/media.js; the answer holds \<open>downloadUrl\<close> and
  \<open>filename\<close>.
\<close>

definition download_media :: "oid \<Rightarrow> db \<Rightarrow> error + db \<times> string option \<times> string option" where
  "download_media mediaId d =
     (case findMedia d mediaId of
        None \<Rightarrow> Inl (NotFound ''Media not found'')
      | Some m \<Rightarrow>
          (case populate None d (m_event m) of
             None \<Rightarrow> Inl TypeError
           | Some ev \<Rightarrow>
               if p_allowDownloads ev \<noteq> Some True
               then Inl (Forbidden ''Downloads are not allowed for this event'')
               else (case incrementDownloads m d of
                 Inl e \<Rightarrow> Inl e
               | Inr (m', d') \<Rightarrow> Inr (d', url m', originalName m'))))"

section \<open>Statistics\<close>

record statistics =
  st_totalPhotos :: nat
  st_totalVideos :: nat
  st_totalGuestbookEntries :: nat
  st_totalLikes :: nat
  st_totalComments :: nat

text \<open>
  The aggregation \<open>$match\<close>, \<open>$project\<close> of a \<open>$size\<close>, \<open>$group\<close> with a \<open>$sum\<close>
  under the key \<open>null\<close>: one result document when a document matched, none otherwise;
  \<open>r[0]?.total || 0\<close> reads it.
\<close>

definition group_sum :: "nat list \<Rightarrow> nat list" where
  "group_sum sizes = (if sizes = [] then [] else [sum_list sizes])"

definition first_total :: "nat list \<Rightarrow> nat" where
  "first_total r = (case r of [] \<Rightarrow> 0 | t # rest \<Rightarrow> t)"

text \<open>
  \<open>mongoose.Types.ObjectId(eventId)\<close> as the statistics route writes it, without
  \<open>new\<close>. The package declares mongoose ^8.0.3, where \<open>ObjectId\<close> is a class: calling
  it as a function throws a \<open>TypeError\<close>.
\<close>

definition objectId_without_new :: "oid \<Rightarrow> error + oid" where
  "objectId_without_new i = Inl TypeError"

text \<open>
  \<open>GET /:eventId/stats\<close> of routes/events.js, after \<open>authenticateToken\<close> and
  \<open>requireEventOwnership\<close>. The array given to \<open>Promise.all\<close> is built first: its
  fourth element is the aggregation whose \<open>$match\<close> holds the ObjectId call, so an
  exception there ends the handler before any result is read or written. The list of
  recent uploads in the answer is left out.
\<close>

definition event_stats :: "oid \<Rightarrow> db \<Rightarrow> error + db \<times> statistics" where
  "event_stats eventId d =
     (case objectId_without_new eventId of
        Inl e \<Rightarrow> Inl e
      | Inr eid \<Rightarrow>
          let photos = length (filter (\<lambda>m. m_event m = eventId \<and> fileType m = Some ''image'') (medias d));
              videos = length (filter (\<lambda>m. m_event m = eventId \<and> fileType m = Some ''video'') (medias d));
              entries = length (filter (\<lambda>g. g_event g = eventId) (guestbooks d));
              likesAgg = group_sum (map (\<lambda>m. length (likes m))
                                     (filter (\<lambda>m. m_event m = eid) (medias d)));
              commentsAgg = group_sum (map (\<lambda>m. length (comments m))
                                        (filter (\<lambda>m. m_event m = eid) (medias d)))
          in Inr (update_event eventId
                    (\<lambda>e. e\<lparr>totalPhotos := int photos, totalVideos := int videos,
                            totalGuestbookEntries := int entries,
                            totalLikes := int (first_total likesAgg),
                            totalComments := int (first_total commentsAgg)\<rparr>) d,
                  \<lparr>st_totalPhotos = photos, st_totalVideos = videos,
                   st_totalGuestbookEntries = entries,
                   st_totalLikes = first_total likesAgg,
                   st_totalComments = first_total commentsAgg\<rparr>))"

section \<open>Submissions\<close>

text \<open>
  \<open>extractMetadata\<close> of utils/cloudinary.js is declared \<open>async\<close>, and the upload
  routes call it without \<open>await\<close>: their \<open>metadata\<close> is a pending Promise. Reading a
  property of it gives \<open>undefined\<close> and spreading it into the new document adds no path,
  which is the metadata \<open>pending_promise\<close>.
\<close>

record metadata =
  md_originalName :: "string option"
  md_fileName :: "string option"
  md_fileSize :: "nat option"
  md_mimeType :: "string option"
  md_url :: "string option"
  md_cloudinaryPublicId :: "string option"
  md_fileType :: "string option"

definition pending_promise :: metadata where
  "pending_promise =
     \<lparr>md_originalName = None, md_fileName = None, md_fileSize = None, md_mimeType = None,
      md_url = None, md_cloudinaryPublicId = None, md_fileType = None\<rparr>"

record upload_file =
  f_originalname :: string
  f_mimetype :: string
  f_size :: nat
  f_filename :: "string option"
  f_path :: "string option"

record upload_body =
  ub_album :: "string option"
  ub_caption :: "string option"
  ub_tags :: "string option"
  ub_guestName :: "string option"
  ub_guestEmail :: "string option"

text \<open>A path declared \<open>lowercase: true\<close> stores its value in lower case.\<close>

definition to_lower :: "string \<Rightarrow> string" where
  "to_lower s =
     map (\<lambda>c. if (65::nat) \<le> of_char c \<and> of_char c \<le> (90::nat)
               then char_of (of_char c + (32::nat)) else c) s"

text \<open>\<open>guestEmail?.trim() || null\<close>, as stored.\<close>

definition email_field :: "string option \<Rightarrow> string option" where
  "email_field e =
     (case e of None \<Rightarrow> None
      | Some s \<Rightarrow> if trim s = [] then None else Some (to_lower (trim s)))"

definition or_default :: "string option \<Rightarrow> string \<Rightarrow> string" where
  "or_default v dflt = (case v of None \<Rightarrow> dflt | Some s \<Rightarrow> if s = [] then dflt else s)"

text \<open>
  The document \<open>new Media({...})\<close> of \<open>POST /upload/:eventId\<close>: no status is given, so
  the schema default \<open>approved\<close> applies.
\<close>

definition host_media_doc :: "oid \<Rightarrow> event \<Rightarrow> user \<Rightarrow> upload_body \<Rightarrow> metadata \<Rightarrow> media" where
  "host_media_doc new_id ev u body md =
     \<lparr>m_id = new_id, m_event = e_id ev,
      m_uploader = \<lparr>u_type = (if role u = ''photographer'' then photographer else host),
                    userId = Some (usr_id u), u_guestName = ''Anonymous Guest'',
                    guestEmail = None\<rparr>,
      fileName = md_fileName md, originalName = md_originalName md,
      fileType = md_fileType md, mimeType = md_mimeType md, fileSize = md_fileSize md,
      url = md_url md, cloudinaryPublicId = md_cloudinaryPublicId md,
      album = or_default (ub_album body) ''All Photos'',
      caption = trim (or_default (ub_caption body) []),
      tags = (if truthy (ub_tags body)
              then map trim (map trim (split_comma (or_default (ub_tags body) [])))
              else []),
      likes = [], comments = [], views = 0, downloads = 0, status = ''approved'',
      isHidden = False, isFeatured = False\<rparr>"

text \<open>The document of \<open>POST /guest-upload/:eventId\<close>, for the guest name of the request.\<close>

definition guest_media_doc :: "oid \<Rightarrow> event \<Rightarrow> string \<Rightarrow> upload_body \<Rightarrow> metadata \<Rightarrow> media" where
  "guest_media_doc new_id ev guestName body md =
     \<lparr>m_id = new_id, m_event = e_id ev,
      m_uploader = \<lparr>u_type = guest, userId = None, u_guestName = trim (trim guestName),
                    guestEmail = email_field (ub_guestEmail body)\<rparr>,
      fileName = md_fileName md, originalName = md_originalName md,
      fileType = md_fileType md, mimeType = md_mimeType md, fileSize = md_fileSize md,
      url = md_url md, cloudinaryPublicId = md_cloudinaryPublicId md,
      album = or_default (ub_album body) ''All Photos'',
      caption = trim (or_default (ub_caption body) []),
      tags = [],
      likes = [], comments = [], views = 0, downloads = 0,
      status = (if moderateUploads ev then ''pending'' else ''approved''),
      isHidden = False, isFeatured = False\<rparr>"

definition fresh_media_id :: "db \<Rightarrow> oid" where
  "fresh_media_id d = Suc (fold max (map m_id (medias d)) 0)"

definition fresh_entry_id :: "db \<Rightarrow> oid" where
  "fresh_entry_id d = Suc (fold max (map g_id (guestbooks d)) 0)"

text \<open>
  The outcome of an upload route: the error answered or left unhandled (\<open>None\<close> for the
  201 answer), the database, the effects, and \<open>uploadedMedia\<close>. The upload to Cloudinary
  that the pending Promise performs is not among the effects.
\<close>

type_synonym upload_result = "error option \<times> db \<times> effect list \<times> media list"

text \<open>
  The loop over the files of the host route. A failed \<open>save\<close> is caught and logged, and
  the file is deleted from Cloudinary when it has a \<open>filename\<close>; a \<open>deleteFile\<close> that
  throws there ends the handler.
\<close>

fun host_files ::
  "(string option \<Rightarrow> bool) \<Rightarrow> event \<Rightarrow> user \<Rightarrow> upload_body \<Rightarrow> upload_file list
     \<Rightarrow> db \<Rightarrow> effect list \<Rightarrow> media list \<Rightarrow> upload_result" where
  "host_files storage_ok ev u body [] d effs uploaded = (None, d, effs, uploaded)"
| "host_files storage_ok ev u body (f # fs) d effs uploaded =
     (case media_save_new (host_media_doc (fresh_media_id d) ev u body pending_promise) d of
        Inr (m, d') \<Rightarrow>
          host_files storage_ok ev u body fs d'
            (effs @ [Emit (e_id ev) (NewMedia m (e_id ev))]) (uploaded @ [m])
      | Inl e \<Rightarrow>
          if truthy (f_filename f)
          then (if storage_ok (f_filename f)
                then host_files storage_ok ev u body fs d
                       (effs @ [LogError, StorageDelete (f_filename f) ''auto'']) uploaded
                else (Some StorageError, d,
                      effs @ [LogError, StorageDelete (f_filename f) ''auto''], uploaded))
          else host_files storage_ok ev u body fs d (effs @ [LogError]) uploaded)"

definition count_type :: "string \<Rightarrow> media list \<Rightarrow> int" where
  "count_type t ms = int (length (filter (\<lambda>m. fileType m = Some t) ms))"

definition add_upload_stats :: "oid \<Rightarrow> media list \<Rightarrow> db \<Rightarrow> db" where
  "add_upload_stats i uploaded d =
     update_event i
       (\<lambda>e. e\<lparr>totalPhotos := totalPhotos e + count_type ''image'' uploaded,
               totalVideos := totalVideos e + count_type ''video'' uploaded\<rparr>) d"

text \<open>
  \<open>POST /upload/:eventId\<close>, for the user and event that \<open>authenticateToken\<close> and
  \<open>requireEventOwnership\<close> attached; \<open>upload_err\<close> is the error of the multipart
  parser, if any.
\<close>

definition host_upload ::
  "(string option \<Rightarrow> bool) \<Rightarrow> event \<Rightarrow> user \<Rightarrow> string option \<Rightarrow> upload_file list \<Rightarrow> upload_body
     \<Rightarrow> db \<Rightarrow> upload_result" where
  "host_upload storage_ok ev u upload_err files body d =
     (case upload_err of
        Some msg \<Rightarrow> (Some (BadRequest msg), d, [], [])
      | None \<Rightarrow>
          if files = [] then (Some (BadRequest ''No files uploaded''), d, [], [])
          else (case host_files storage_ok ev u body files d [] [] of
            (Some e, d', effs, uploaded) \<Rightarrow> (Some e, d', effs, uploaded)
          | (None, d', effs, uploaded) \<Rightarrow>
              (None, add_upload_stats (e_id ev) uploaded d', effs, uploaded)))"

text \<open>The loop of the guest route: only an approved document is pushed and announced.\<close>

fun guest_files ::
  "(string option \<Rightarrow> bool) \<Rightarrow> event \<Rightarrow> string \<Rightarrow> upload_body \<Rightarrow> upload_file list
     \<Rightarrow> db \<Rightarrow> effect list \<Rightarrow> media list \<Rightarrow> upload_result" where
  "guest_files storage_ok ev guestName body [] d effs uploaded = (None, d, effs, uploaded)"
| "guest_files storage_ok ev guestName body (f # fs) d effs uploaded =
     (case media_save_new (guest_media_doc (fresh_media_id d) ev guestName body pending_promise) d of
        Inr (m, d') \<Rightarrow>
          if status m = ''approved''
          then guest_files storage_ok ev guestName body fs d'
                 (effs @ [Emit (e_id ev) (NewMedia m (e_id ev))]) (uploaded @ [m])
          else guest_files storage_ok ev guestName body fs d' effs uploaded
      | Inl e \<Rightarrow>
          if truthy (f_filename f)
          then (if storage_ok (f_filename f)
                then guest_files storage_ok ev guestName body fs d
                       (effs @ [LogError, StorageDelete (f_filename f) ''auto'']) uploaded
                else (Some StorageError, d,
                      effs @ [LogError, StorageDelete (f_filename f) ''auto''], uploaded))
          else guest_files storage_ok ev guestName body fs d (effs @ [LogError]) uploaded)"

text \<open>\<open>POST /guest-upload/:eventId\<close>, for the event that \<open>validateEventAccess\<close> attached.\<close>

definition guest_upload ::
  "(string option \<Rightarrow> bool) \<Rightarrow> event \<Rightarrow> string option \<Rightarrow> upload_file list \<Rightarrow> upload_body
     \<Rightarrow> db \<Rightarrow> upload_result" where
  "guest_upload storage_ok ev upload_err files body d =
     (case upload_err of
        Some msg \<Rightarrow> (Some (BadRequest msg), d, [], [])
      | None \<Rightarrow>
          if files = [] then (Some (BadRequest ''No files uploaded''), d, [], [])
          else
            let guestName = (case ub_guestName body of None \<Rightarrow> ''Anonymous Guest'' | Some n \<Rightarrow> n) in
            if trim guestName = [] then (Some (BadRequest ''Guest name is required''), d, [], [])
            else (case guest_files storage_ok ev guestName body files d [] [] of
              (Some e, d', effs, uploaded) \<Rightarrow> (Some e, d', effs, uploaded)
            | (None, d', effs, uploaded) \<Rightarrow>
                (None,
                 (if uploaded \<noteq> [] then add_upload_stats (e_id ev) uploaded d' else d'),
                 effs, uploaded)))"

text \<open>
  \<open>POST /:eventId\<close> of routes/guestbook.js. The validation chain trims \<open>guestName\<close>
  (1 to 100 characters) and \<open>textMessage\<close> when present (at most 1000), and checks
  \<open>guestEmail\<close> when present: \<open>email_check\<close> stands for \<open>isEmail().normalizeEmail()\<close>,
  \<open>None\<close> for an address that is refused.
\<close>

record entry_body =
  eb_guestName :: "string option"
  eb_textMessage :: "string option"
  eb_guestEmail :: "string option"

definition entry_body_ok :: "(string \<Rightarrow> string option) \<Rightarrow> entry_body \<Rightarrow> bool" where
  "entry_body_ok email_check body =
     (1 \<le> length (body_field (eb_guestName body))
      \<and> length (body_field (eb_guestName body)) \<le> 100
      \<and> (case eb_textMessage body of None \<Rightarrow> True | Some t \<Rightarrow> length (trim t) \<le> 1000)
      \<and> (case eb_guestEmail body of None \<Rightarrow> True | Some e \<Rightarrow> email_check e \<noteq> None))"

definition policy_status :: "event \<Rightarrow> string" where
  "policy_status ev = (if moderateUploads ev then ''pending'' else ''approved'')"

text \<open>What both guestbook routes do once the entry is built: save it, and count and announce it when it is approved.\<close>

definition store_entry :: "event \<Rightarrow> guestbook \<Rightarrow> db \<Rightarrow> error + db \<times> effect list \<times> guestbook" where
  "store_entry ev entry d =
     (case guestbook_save_new entry d of
        Inl e \<Rightarrow> Inl e
      | Inr (g, d') \<Rightarrow>
          if g_status g = ''approved''
          then Inr (update_event (e_id ev)
                      (\<lambda>e. e\<lparr>totalGuestbookEntries := totalGuestbookEntries e + 1\<rparr>) d',
                    [Emit (e_id ev) (NewGuestbookEntry g (e_id ev))], g)
          else Inr (d', [], g))"

definition post_entry ::
  "(string \<Rightarrow> string option) \<Rightarrow> event \<Rightarrow> entry_body \<Rightarrow> db
     \<Rightarrow> error + db \<times> effect list \<times> guestbook" where
  "post_entry email_check ev body d =
     (if \<not> entry_body_ok email_check body then Inl (BadRequest ''Validation failed'')
      else if \<not> enableGuestbook ev then Inl (Forbidden ''Guestbook is disabled for this event'')
      else (case eb_textMessage body of
        None \<Rightarrow> Inl (BadRequest ''Message is required'')
      | Some t \<Rightarrow>
          if trim t = [] then Inl (BadRequest ''Message is required'')
          else store_entry ev
                 \<lparr>g_id = fresh_entry_id d, g_event = e_id ev,
                  g_guestName = trim (body_field (eb_guestName body)),
                  g_guestEmail =
                    email_field (case eb_guestEmail body of None \<Rightarrow> None | Some e \<Rightarrow> email_check e),
                  messageType = ''text'', textMessage = Some (trim (trim t)),
                  audio_url = None, audio_cloudinaryPublicId = None,
                  g_likes = [], replies = [], g_status = policy_status ev,
                  g_isHidden = False, isPinned = False\<rparr> d))"

text \<open>
  \<open>POST /:eventId/audio\<close> of routes/guestbook.js: \<open>req_file\<close> is the parsed audio file,
  and the metadata is again a pending Promise.
\<close>

definition post_audio ::
  "event \<Rightarrow> string option \<Rightarrow> upload_file option \<Rightarrow> entry_body \<Rightarrow> db
     \<Rightarrow> error + db \<times> effect list \<times> guestbook" where
  "post_audio ev upload_err req_file body d =
     (if \<not> enableGuestbook ev \<or> \<not> enableAudioMessages ev
      then Inl (Forbidden ''Audio messages are disabled for this event'')
      else (case upload_err of
        Some msg \<Rightarrow> Inl (BadRequest msg)
      | None \<Rightarrow>
          (case req_file of
             None \<Rightarrow> Inl (BadRequest ''No audio file uploaded'')
           | Some f \<Rightarrow>
               if \<not> truthy (eb_guestName body) \<or> trim (or_default (eb_guestName body) []) = []
               then Inl (BadRequest ''Guest name is required'')
               else
                 let txt = trim (or_default (eb_textMessage body) []) in
                 store_entry ev
                   \<lparr>g_id = fresh_entry_id d, g_event = e_id ev,
                    g_guestName = trim (trim (or_default (eb_guestName body) [])),
                    g_guestEmail = email_field (eb_guestEmail body),
                    messageType = (if txt \<noteq> [] then ''mixed'' else ''audio''),
                    textMessage = (if txt \<noteq> [] then Some (trim txt) else None),
                    audio_url = f_path f,
                    audio_cloudinaryPublicId = md_cloudinaryPublicId pending_promise,
                    g_likes = [], replies = [], g_status = policy_status ev,
                    g_isHidden = False, isPinned = False\<rparr> d)))"

section \<open>Helpers for stating properties\<close>





section \<open>A small database used for concrete evaluations\<close>

definition ev1 :: event where
  "ev1 = \<lparr>e_id = 1, e_host = 10, photographers = [11], moderateUploads = True,
          allowDownloads = True, enableGuestbook = True, enableAudioMessages = True,
          isActive = True, isPublished = True, isPasswordProtected = False, password = None,
          totalPhotos = 0, totalVideos = 0, totalGuestbookEntries = 0, totalLikes = 0,
          totalComments = 0\<rparr>"

definition ev2 :: event where
  "ev2 = ev1\<lparr>e_id := 2, e_host := 20, photographers := [], moderateUploads := False\<rparr>"

definition photo1 :: media where
  "photo1 = \<lparr>m_id = 100, m_event = 1,
     m_uploader = \<lparr>u_type = guest, userId = None, u_guestName = ''Bob'', guestEmail = None\<rparr>,
     fileName = Some ''p100'', originalName = Some ''a.jpg'', fileType = Some ''image'',
     mimeType = Some ''image/jpeg'', fileSize = Some 1024, url = Some ''https://cdn/p100'',
     cloudinaryPublicId = Some ''p100'', album = ''All Photos'', caption = [], tags = [],
     likes = [], comments = [], views = 0, downloads = 0, status = ''approved'',
     isHidden = False, isFeatured = False\<rparr>"

definition photo_pending :: media where
  "photo_pending = photo1\<lparr>m_id := 101, status := ''pending'',
     likes := [\<lparr>like_guestName = ''Bob''\<rparr>],
     comments := [\<lparr>c_guestName = ''Bob'', c_message = ''first'', isApproved = False\<rparr>]\<rparr>"

definition photo_hidden :: media where
  "photo_hidden = photo1\<lparr>m_id := 102, isHidden := True\<rparr>"

definition photo_other :: media where
  "photo_other = photo1\<lparr>m_id := 103, m_event := 2, status := ''pending''\<rparr>"

definition entry1 :: guestbook where
  "entry1 = \<lparr>g_id = 200, g_event = 1, g_guestName = ''Carol'', g_guestEmail = None,
     messageType = ''text'', textMessage = Some ''Congratulations'', audio_url = None,
     audio_cloudinaryPublicId = None, g_likes = [], replies = [], g_status = ''approved'',
     g_isHidden = False, isPinned = False\<rparr>"

definition entry_pending :: guestbook where
  "entry_pending = entry1\<lparr>g_id := 201, g_status := ''pending''\<rparr>"

definition entry_other :: guestbook where
  "entry_other = entry1\<lparr>g_id := 202, g_event := 2, g_status := ''pending''\<rparr>"

definition entry_audio :: guestbook where
  "entry_audio = entry1\<lparr>g_id := 203, messageType := ''audio'', textMessage := None,
     audio_url := Some ''https://cdn/a203'', audio_cloudinaryPublicId := Some ''a203''\<rparr>"

definition db1 :: db where
  "db1 = \<lparr>medias = [photo1, photo_pending, photo_hidden, photo_other],
          guestbooks = [entry1, entry_pending, entry_other, entry_audio],
          events = [ev1, ev2]\<rparr>"

definition host10 :: user where
  "host10 = \<lparr>usr_id = 10, role = ''host''\<rparr>"

definition user30 :: user where
  "user30 = \<lparr>usr_id = 30, role = ''host''\<rparr>"



definition entry_body1 :: entry_body where
  "entry_body1 = \<lparr>eb_guestName = Some ''Eve'', eb_textMessage = Some ''All the best'',
                    eb_guestEmail = None\<rparr>"

definition upload_body1 :: upload_body where
  "upload_body1 = \<lparr>ub_album = None, ub_caption = None, ub_tags = None,
                     ub_guestName = Some ''Eve'', ub_guestEmail = None\<rparr>"

definition file1 :: upload_file where
  "file1 = \<lparr>f_originalname = ''a.jpg'', f_mimetype = ''image/jpeg'', f_size = 2048,
              f_filename = None, f_path = None\<rparr>"

section \<open>Basic facts\<close>

lemma last_dropWhile: "dropWhile P xs \<noteq> [] \<Longrightarrow> last (dropWhile P xs) = last xs"
  by (induction xs) auto

lemma dropWhile_both_ends:
  "dropWhile P (rev (dropWhile P (rev (dropWhile P s)))) = rev (dropWhile P (rev (dropWhile P s)))"
proof (cases "dropWhile P (rev (dropWhile P s)) = []")
  case True
  show ?thesis unfolding True by simp
next
  case False
  let ?t = "dropWhile P s"
  let ?u = "dropWhile P (rev ?t)"
  have t: "?t \<noteq> []"
  proof
    assume e: "?t = []"
    have "?u = []" unfolding e by simp
    with False show False by blast
  qed
  have "hd (rev ?u) = last ?u" using False by (simp add: hd_rev)
  also have "\<dots> = last (rev ?t)" using False by (rule last_dropWhile)
  also have "\<dots> = hd ?t" using t by (simp add: last_rev)
  finally have "\<not> P (hd (rev ?u))" using hd_dropWhile [OF t] by simp
  then show ?thesis by (simp add: dropWhile_eq_self_iff)
qed

lemma trim_idem: "trim (trim s) = trim s"
  unfolding trim_def by (simp add: dropWhile_both_ends)


lemma media_valid_likes [simp]: "media_valid (m\<lparr>likes := l\<rparr>) = media_valid m"
  by (simp add: media_valid_def)

lemma guestbook_valid_likes [simp]: "guestbook_valid (g\<lparr>g_likes := l\<rparr>) = guestbook_valid g"
  by (simp add: guestbook_valid_def)

lemma pre_save_likes [simp]: "pre_save (g\<lparr>g_likes := l\<rparr>) = pre_save g"
  by (simp add: pre_save_def)




section \<open>Likes are keyed by guest name\<close>











lemma like_routes_answer_not_found:
  "like_media within_limit providedPassword mediaId guestName d
     = Inl (NotFound ''Event not found or not available'')"
  "like_entry within_limit providedPassword entryId guestName d
     = Inl (NotFound ''Event not found or not available'')"
  by (simp_all add: like_media_def like_entry_def validateEventAccess_def)

text \<open>
  Inside the handlers, which no request reaches, the virtual \<open>likeCount\<close> is read after
  \<open>addLike\<close> has pushed the like and 1 is added to it: for the event 1, a first like by
  Alice on \<open>photo1\<close> would leave one like on the item and announce 2.
\<close>

lemma like_handler_announces_one_too_many:
  "map_sum id (fst \<circ> snd) (like_media_handler ev1 100 (Some ''Alice'') db1)
     = Inr [Emit 1 (MediaLiked 100 2 ''Alice'')]
   \<and> map_sum id (map_option likeCount \<circ> (\<lambda>r. findMedia (fst r) 100))
        (like_media_handler ev1 100 (Some ''Alice'') db1) = Inr (Some 1)
   \<and> map_sum id (fst \<circ> snd) (like_entry_handler ev1 200 (Some ''Alice'') db1)
     = Inr [Emit 1 (GuestbookLiked 200 2 ''Alice'')]
   \<and> map_sum id (map_option g_likeCount \<circ> (\<lambda>r. findEntry (fst r) 200))
        (like_entry_handler ev1 200 (Some ''Alice'') db1) = Inr (Some 1)"
  by code_simp






section \<open>What the public listings and the single-item read let through\<close>

lemma page_of_subset: "page_of page limit xs = Inr ys \<Longrightarrow> set ys \<subseteq> set xs"
  by (auto simp: page_of_def split: if_splits dest: in_set_takeD in_set_dropD)

lemma list_media_only_visible:
  assumes "list_media eventId q key order page limit d = Inr (ms, n)" and "x \<in> set ms"
  shows "m_event x = eventId \<and> status x = ''approved'' \<and> isHidden x = False"
proof -
  from assms(1) obtain ys where
    p: "page_of page limit (sorted_by key order (filter (public_match eventId q) (medias d))) = Inr ys"
    and ms: "ms = map (\<lambda>m. m\<lparr>cloudinaryPublicId := None\<rparr>) ys"
    by (auto simp: list_media_def Let_def split: sum.splits)
  from assms(2) ms obtain y where y: "y \<in> set ys" "x = y\<lparr>cloudinaryPublicId := None\<rparr>"
    by auto
  from page_of_subset [OF p] y(1) have "public_match eventId q y"
    by (auto simp: sorted_by_def)
  with y(2) show ?thesis by (simp add: public_match_def)
qed

lemma list_entries_only_visible:
  assumes "list_entries ev key order page limit d = Inr (gs, n)" and "x \<in> set gs"
  shows "g_event x = e_id ev \<and> g_status x = ''approved'' \<and> g_isHidden x = False"
proof -
  from assms(1) have
    p: "page_of page limit (sorted_by key order (filter (g_public_match (e_id ev)) (guestbooks d))) = Inr gs"
    by (auto simp: list_entries_def Let_def split: sum.splits if_splits)
  from page_of_subset [OF p] assms(2) have "g_public_match (e_id ev) x"
    by (auto simp: sorted_by_def)
  then show ?thesis by (simp add: g_public_match_def)
qed

lemma store_entry_announces_approved_only:
  "store_entry ev entry d = Inr (d', effs, g) \<Longrightarrow>
   effs = (if g_status g = ''approved'' then [Emit (e_id ev) (NewGuestbookEntry g (e_id ev))] else [])"
  by (auto simp: store_entry_def split: sum.splits if_splits)

lemma get_media_with_user_throws:
  "findMedia d i = Some m \<Longrightarrow> get_media (Some u) i d = Inl TypeError"
  by (simp add: get_media_def populate_def selected_def isOwner_def split: option.splits)

lemma get_media_without_user:
  assumes "findMedia d i = Some m" and "media_valid m"
  shows "get_media None i d
           = (if status m = ''approved''
              then Inr (d\<lparr>medias := replace_media (m\<lparr>views := views m + 1\<rparr>) (medias d)\<rparr>,
                        m\<lparr>views := views m + 1\<rparr>)
              else Inl (NotFound ''Media not found''))"
proof -
  from assms(2) have v: "media_valid (m\<lparr>views := views m + 1\<rparr>)" by (simp add: media_valid_def)
  from assms(1) have "m \<in> set (medias d)" by (auto simp: findMedia_def find_Some_iff)
  then have s: "m_id m \<in> m_id ` set (medias d)" by (rule imageI)
  from assms(1) v s show ?thesis
    by (simp add: get_media_def incrementViews_def media_save_def)
qed

section \<open>Who can read an item that is not approved\<close>

text \<open>
  Claim C1, at a concrete request. The claim: an item whose status is pending or rejected
  is never readable by an unauthenticated consumer. \<open>GET /entry/:entryId\<close> has no
  middleware and tests nothing: it answers the pending entry 201 to anyone, while the
  media route beside it answers 404 for the pending photo 101 to a request without a
  user. The download route likewise hands out the URL and file name of the pending
  photo 101.
\<close>

theorem pending_entry_is_answered_to_anyone:
  "g_status entry_pending = ''pending''
   \<and> get_entry 201 db1 = Inr entry_pending
   \<and> get_media None 101 db1 = Inl (NotFound ''Media not found'')
   \<and> map_option status (findMedia db1 101) = Some ''pending''
   \<and> map_sum id snd (download_media 101 db1) = Inr (Some ''https://cdn/p100'', Some ''a.jpg'')"
  by code_simp

text \<open>
  Claim C10, at a concrete request. The claim: an approved, hidden media item is returned
  by the single-item read to any requester, with its view counter incremented. That
  holds for the request without a user (\<open>get_media_without_user\<close>), and the listing
  leaves the item out (\<open>list_media_only_visible\<close>). For a request with a user, owner
  or not, the ownership test reads \<open>event.host\<close> of an event populated without that
  path and throws before the status is looked at (\<open>get_media_with_user_throws\<close>).
\<close>

theorem hidden_media_read_throws_for_a_signed_in_user:
  "map_option status (findMedia db1 102) = Some ''approved''
   \<and> map_option isHidden (findMedia db1 102) = Some True
   \<and> get_media (Some host10) 102 db1 = Inl TypeError
   \<and> get_media (Some user30) 102 db1 = Inl TypeError
   \<and> map_sum id snd (get_media None 102 db1) = Inr (photo_hidden\<lparr>views := 1\<rparr>)
   \<and> map_sum id (map m_id \<circ> fst)
        (list_media 1 \<lparr>q_album = None, q_fileType = None, q_featured = None\<rparr>
           (\<lambda>m. int (m_id m)) ''asc'' 1 20 db1) = Inr [100]"
  by code_simp

section \<open>Statistics\<close>

lemma first_total_group_sum: "first_total (group_sum xs) = sum_list xs"
  by (cases xs) (simp_all add: first_total_def group_sum_def)

lemma event_stats_throws: "event_stats eventId d = Inl TypeError"
  by (simp add: event_stats_def objectId_without_new_def)

text \<open>
  Claim C4, at a concrete request. The claim: the statistics route recomputes the five
  counters of an event from its approved items. The route throws while it builds its
  queries, at \<open>mongoose.Types.ObjectId(eventId)\<close> called without \<open>new\<close>: the host of
  event 1 passes \<open>requireEventOwnership\<close>, asks for the statistics, and gets an error
  and no number; the counters stored in the event stay as they were.
\<close>

theorem event_stats_request_throws:
  "requireEventOwnership host10 (Some 1) db1 = Inr ev1
   \<and> event_stats 1 db1 = Inl TypeError"
  by code_simp

section \<open>Deletion\<close>

lemma findMedia_id: "findMedia d i = Some m \<Longrightarrow> m_id m = i"
  by (auto simp: findMedia_def find_Some_iff)

lemma findEntry_id: "findEntry d i = Some g \<Longrightarrow> g_id g = i"
  by (auto simp: findEntry_def find_Some_iff)

lemma populate_id: "populate sel d i = Some ev \<Longrightarrow> p_id ev = i"
  by (auto simp: populate_def findEvent_def find_Some_iff split: option.splits)

lemma findMedia_removed:
  "findMedia (update_event j f (d\<lparr>medias := filter (\<lambda>x. m_id x \<noteq> i) (medias d)\<rparr>)) i = None"
  by (simp add: findMedia_def update_event_def find_None_iff)

lemma findEntry_removed:
  "findEntry (update_event j f (d\<lparr>guestbooks := filter (\<lambda>x. g_id x \<noteq> i) (guestbooks d)\<rparr>)) i = None"
  by (simp add: findEntry_def update_event_def find_None_iff)

lemma delete_media_Inr:
  assumes "delete_media storage_ok u i d = Inr (d', effs)"
  shows "\<exists>m. findMedia d i = Some m
           \<and> effs = StorageDelete (cloudinaryPublicId m)
                      (if fileType m = Some ''video'' then ''video'' else ''image'')
                    # (if storage_ok (cloudinaryPublicId m) then [] else [LogError])
                    @ [DbDelete i, Emit (m_event m) (MediaDeleted i (m_event m))]
           \<and> findMedia d' i = None"
proof -
  from assms obtain m where m: "findMedia d i = Some m"
    by (auto simp: delete_media_def split: option.splits)
  from assms m obtain ev where ev: "populate None d (m_event m) = Some ev"
    by (auto simp: delete_media_def split: option.splits)
  from assms m ev have own: "isOwner ev u = Inr True"
    by (auto simp: delete_media_def split: sum.splits bool.splits)
  have ids: "m_id m = i" "p_id ev = m_event m"
    using m ev by (simp_all add: findMedia_id populate_id)
  from assms m ev own ids show ?thesis
    by (auto simp: delete_media_def Let_def try_delete_def findMedia_removed)
qed

lemma delete_entry_Inr:
  assumes "delete_entry storage_ok u i d = Inr (d', effs)"
  shows "\<exists>g. findEntry d i = Some g
           \<and> effs = (if truthy (audio_cloudinaryPublicId g)
                     then StorageDelete (audio_cloudinaryPublicId g) ''raw''
                          # (if storage_ok (audio_cloudinaryPublicId g) then [] else [LogError])
                     else [])
                    @ [DbDelete i, Emit (g_event g) (GuestbookDeleted i (g_event g))]
           \<and> findEntry d' i = None"
proof -
  from assms obtain g where g: "findEntry d i = Some g"
    by (auto simp: delete_entry_def split: option.splits)
  from assms g obtain ev where ev: "populate None d (g_event g) = Some ev"
    by (auto simp: delete_entry_def split: option.splits)
  from assms g ev have own: "isOwner ev u = Inr True"
    by (auto simp: delete_entry_def split: sum.splits bool.splits)
  have ids: "g_id g = i" "p_id ev = g_event g"
    using g ev by (simp_all add: findEntry_id populate_id)
  from assms g ev own ids show ?thesis
    by (auto simp: delete_entry_def Let_def try_delete_def findEntry_removed)
qed

lemma delete_db_independent_of_storage:
  "map_sum id fst (delete_media storage_ok u i d) = map_sum id fst (delete_media storage_ok' u i d)"
  "map_sum id fst (delete_entry storage_ok u i d) = map_sum id fst (delete_entry storage_ok' u i d)"
  by (auto simp: delete_media_def delete_entry_def Let_def split: option.splits sum.splits bool.splits)

text \<open>
  Claim C9 as stated fails for a guestbook entry without an audio payload: the route
  guards the storage delete with \<open>if (entry.audioMessage.cloudinaryPublicId)\<close>, so for
  the text entry 200 no storage delete is attempted.
\<close>

theorem text_entry_delete_attempts_no_storage_delete:
  "map_sum id snd (delete_entry (\<lambda>p. True) host10 200 db1)
     = Inr [DbDelete 200, Emit 1 (GuestbookDeleted 200 1)]"
  by code_simp

text \<open>
  Claim C9, amended: for every single-item delete that goes through, of a media item the
  storage delete is attempted first, and of a guestbook entry it is attempted first when
  the entry has an audio payload and not at all otherwise; a failing storage delete is
  logged and nothing more; the record is then removed, the item is no longer found, and
  exactly one \<open>media-deleted\<close> or \<open>guestbook-deleted\<close> message with the item's id and
  event id goes to that event's room. Whether the storage delete fails changes neither
  the answer nor the resulting database.
\<close>

theorem delete_attempts_storage_then_removes_record:
  "(delete_media storage_ok u i d = Inr (d', effs) \<longrightarrow>
      (\<exists>m. findMedia d i = Some m
         \<and> effs = StorageDelete (cloudinaryPublicId m)
                    (if fileType m = Some ''video'' then ''video'' else ''image'')
                  # (if storage_ok (cloudinaryPublicId m) then [] else [LogError])
                  @ [DbDelete i, Emit (m_event m) (MediaDeleted i (m_event m))]
         \<and> findMedia d' i = None))
   \<and> (delete_entry storage_ok u j d = Inr (d'', effs') \<longrightarrow>
      (\<exists>g. findEntry d j = Some g
         \<and> effs' = (if truthy (audio_cloudinaryPublicId g)
                    then StorageDelete (audio_cloudinaryPublicId g) ''raw''
                         # (if storage_ok (audio_cloudinaryPublicId g) then [] else [LogError])
                    else [])
                   @ [DbDelete j, Emit (g_event g) (GuestbookDeleted j (g_event g))]
         \<and> findEntry d'' j = None))
   \<and> map_sum id fst (delete_media storage_ok u i d) = map_sum id fst (delete_media other_ok u i d)
   \<and> map_sum id fst (delete_entry storage_ok u j d) = map_sum id fst (delete_entry other_ok u j d)"
  using delete_media_Inr [of storage_ok u i d d' effs]
        delete_entry_Inr [of storage_ok u j d d'' effs']
        delete_db_independent_of_storage [of storage_ok u i d other_ok]
        delete_db_independent_of_storage(2) [of storage_ok u j d other_ok]
  by blast

theorem delete_attempts_storage_then_removes_record_witness:
  "delete_media (\<lambda>p. False) host10 100 db1
     = Inr (fst (projr (delete_media (\<lambda>p. False) host10 100 db1)),
            [StorageDelete (Some ''p100'') ''image'', LogError, DbDelete 100,
             Emit 1 (MediaDeleted 100 1)])
   \<and> findMedia (fst (projr (delete_media (\<lambda>p. False) host10 100 db1))) 100 = None
   \<and> delete_entry (\<lambda>p. False) host10 203 db1
     = Inr (fst (projr (delete_entry (\<lambda>p. False) host10 203 db1)),
            [StorageDelete (Some ''a203'') ''raw'', LogError, DbDelete 203,
             Emit 1 (GuestbookDeleted 203 1)])
   \<and> findEntry (fst (projr (delete_entry (\<lambda>p. False) host10 203 db1))) 203 = None"
proof -
  let ?rm = "delete_media (\<lambda>p. False) host10 100 db1"
  let ?re = "delete_entry (\<lambda>p. False) host10 203 db1"
  have m: "?rm = Inr (fst (projr ?rm),
            [StorageDelete (Some ''p100'') ''image'', LogError, DbDelete 100,
             Emit 1 (MediaDeleted 100 1)])"
    by code_simp
  have e: "?re = Inr (fst (projr ?re),
            [StorageDelete (Some ''a203'') ''raw'', LogError, DbDelete 203,
             Emit 1 (GuestbookDeleted 203 1)])"
    by code_simp
  note w = delete_attempts_storage_then_removes_record
             [of "\<lambda>p. False" host10 100 db1 "fst (projr ?rm)" _ 203 "fst (projr ?re)" _ "\<lambda>p. True"]
  from w m have "findMedia (fst (projr ?rm)) 100 = None" by blast
  moreover from w e have "findEntry (fst (projr ?re)) 203 = None" by blast
  ultimately show ?thesis using m e by blast
qed

section \<open>Bulk actions\<close>

lemma bulk_approve_update:
  "apply_media_update (bulk_updateData ''approve'') m = m\<lparr>status := ''approved''\<rparr>"
  by (simp add: apply_media_update_def bulk_updateData_def no_update_def)

lemma bulk_reject_update:
  "apply_media_update (bulk_updateData ''reject'') m = m\<lparr>status := ''rejected''\<rparr>"
  by (simp add: apply_media_update_def bulk_updateData_def no_update_def)

lemma g_bulk_approve_update:
  "apply_entry_update (g_bulk_updateData ''approve'') g = g\<lparr>g_status := ''approved''\<rparr>"
  by (simp add: apply_entry_update_def g_bulk_updateData_def)

lemma g_bulk_reject_update:
  "apply_entry_update (g_bulk_updateData ''reject'') g = g\<lparr>g_status := ''rejected''\<rparr>"
  by (simp add: apply_entry_update_def g_bulk_updateData_def)

lemma bulk_status_update:
  assumes "a = ''approve'' \<or> a = ''reject''"
  shows "apply_media_update (bulk_updateData a) m
     = m\<lparr>status := (if a = ''approve'' then ''approved'' else ''rejected'')\<rparr>"
  using assms
proof
  assume "a = ''approve''" then show ?thesis by (simp add: bulk_approve_update)
next
  assume "a = ''reject''" then show ?thesis by (simp add: bulk_reject_update)
qed

lemma g_bulk_status_update:
  assumes "a = ''approve'' \<or> a = ''reject''"
  shows "apply_entry_update (g_bulk_updateData a) g
     = g\<lparr>g_status := (if a = ''approve'' then ''approved'' else ''rejected'')\<rparr>"
  using assms
proof
  assume "a = ''approve''" then show ?thesis by (simp add: g_bulk_approve_update)
next
  assume "a = ''reject''" then show ?thesis by (simp add: g_bulk_reject_update)
qed

text \<open>
  Claim C7: a bulk approve or reject over a non-empty list of ids against an event
  succeeds, sets the status of exactly the listed items that belong to that event, and
  leaves every other item, among them a listed item of another event, as it was. It
  touches no other collection and emits nothing.
\<close>

theorem bulk_action_changes_only_listed_items_of_the_event:
  assumes "ids \<noteq> []" and "a = ''approve'' \<or> a = ''reject''"
  shows "bulk_media storage_ok eventId (Some ids) (Some a) d
           = Inr (d\<lparr>medias :=
                      map (\<lambda>m. if m_id m \<in> set ids \<and> m_event m = eventId
                                then m\<lparr>status := (if a = ''approve'' then ''approved'' else ''rejected'')\<rparr>
                                else m) (medias d)\<rparr>, [])
       \<and> bulk_entries storage_ok eventId (Some ids) (Some a) d
           = Inr (d\<lparr>guestbooks :=
                      map (\<lambda>g. if g_id g \<in> set ids \<and> g_event g = eventId
                                then g\<lparr>g_status := (if a = ''approve'' then ''approved'' else ''rejected'')\<rparr>
                                else g) (guestbooks d)\<rparr>, [])"
proof -
  define tgt where "tgt = (if a = ''approve'' then ''approved'' else ''rejected'')"
  have um: "\<And>m. apply_media_update (bulk_updateData a) m = m\<lparr>status := tgt\<rparr>"
    unfolding tgt_def using assms(2) by (rule bulk_status_update)
  have ug: "\<And>g. apply_entry_update (g_bulk_updateData a) g = g\<lparr>g_status := tgt\<rparr>"
    unfolding tgt_def using assms(2) by (rule g_bulk_status_update)
  have mem: "a \<in> set [''approve'', ''reject'', ''delete'', ''feature'', ''unfeature'']"
    and gmem: "a \<in> set [''approve'', ''reject'', ''delete'', ''pin'', ''unpin'']"
    and nd: "a \<noteq> ''delete''" using assms(2) by auto
  have m: "bulk_media storage_ok eventId (Some ids) (Some a) d
           = Inr (d\<lparr>medias :=
                      map (\<lambda>m. if m_id m \<in> set ids \<and> m_event m = eventId
                                then m\<lparr>status := tgt\<rparr> else m) (medias d)\<rparr>, [])"
    using assms(1) mem nd by (simp only: bulk_media_def in_bulk_def option.case if_False not_True_eq_False not_False_eq_True um)
  have g: "bulk_entries storage_ok eventId (Some ids) (Some a) d
           = Inr (d\<lparr>guestbooks :=
                      map (\<lambda>g. if g_id g \<in> set ids \<and> g_event g = eventId
                                then g\<lparr>g_status := tgt\<rparr> else g) (guestbooks d)\<rparr>, [])"
    using assms(1) gmem nd by (simp only: bulk_entries_def g_in_bulk_def option.case if_False not_True_eq_False not_False_eq_True ug)
  from m g show ?thesis unfolding tgt_def by (rule conjI)
qed

theorem bulk_action_changes_only_listed_items_of_the_event_witness:
  "[100, 101, 103] \<noteq> ([]::oid list) \<and> (''reject'' = ''approve'' \<or> ''reject'' = ''reject'')
   \<and> bulk_media (\<lambda>p. True) 1 (Some [100, 101, 103]) (Some ''reject'') db1
       = Inr (db1\<lparr>medias := [photo1\<lparr>status := ''rejected''\<rparr>,
                               photo_pending\<lparr>status := ''rejected''\<rparr>,
                               photo_hidden, photo_other]\<rparr>, [])"
proof -
  have h1: "[100, 101, 103] \<noteq> ([]::oid list)" by simp
  have h2: "''reject'' = ''approve'' \<or> ''reject'' = ''reject''" by simp
  have ms: "medias db1 = [photo1, photo_pending, photo_hidden, photo_other]"
    by (simp add: db1_def)
  have ids: "m_id photo1 = 100" "m_id photo_pending = 101" "m_id photo_hidden = 102"
    "m_id photo_other = 103" "m_event photo1 = 1" "m_event photo_pending = 1"
    "m_event photo_other = 2"
    by (simp_all add: photo1_def photo_pending_def photo_hidden_def photo_other_def)
  from bulk_action_changes_only_listed_items_of_the_event
         [OF h1 h2, of "\<lambda>p. True" 1 db1]
  have "bulk_media (\<lambda>p. True) 1 (Some [100, 101, 103]) (Some ''reject'') db1
       = Inr (db1\<lparr>medias := [photo1\<lparr>status := ''rejected''\<rparr>,
                               photo_pending\<lparr>status := ''rejected''\<rparr>,
                               photo_hidden, photo_other]\<rparr>, [])"
    by (simp add: ms ids)
  with h1 h2 show ?thesis by blast
qed

section \<open>Comments and replies\<close>

lemma find_replace_media:
  "m_id m' = i \<Longrightarrow> i \<in> m_id ` set ms \<Longrightarrow> find (\<lambda>x. m_id x = i) (replace_media m' ms) = Some m'"
proof -
  assume i: "m_id m' = i" and "i \<in> m_id ` set ms"
  then have "find (\<lambda>x. m_id x = i) (map (\<lambda>x. if m_id x = i then m' else x) ms) = Some m'"
    by (induction ms) auto
  with i show ?thesis by (simp add: replace_media_def)
qed

lemma find_replace_entry:
  "g_id g' = i \<Longrightarrow> i \<in> g_id ` set gs \<Longrightarrow> find (\<lambda>x. g_id x = i) (replace_entry g' gs) = Some g'"
proof -
  assume i: "g_id g' = i" and "i \<in> g_id ` set gs"
  then have "find (\<lambda>x. g_id x = i) (map (\<lambda>x. if g_id x = i then g' else x) gs) = Some g'"
    by (induction gs) auto
  with i show ?thesis by (simp add: replace_entry_def)
qed

lemma findMedia_stored: "findMedia d i = Some m \<Longrightarrow> i \<in> m_id ` set (medias d)"
  by (force simp: findMedia_def find_Some_iff)

lemma findEntry_stored: "findEntry d i = Some g \<Longrightarrow> i \<in> g_id ` set (guestbooks d)"
  by (force simp: findEntry_def find_Some_iff)

lemma media_save_found:
  assumes "media_save m' d = Inr (m1, d')" and "m_id m' = i" and "findMedia d i = Some m"
  shows "m1 = m' \<and> findMedia d' i = Some m'"
proof -
  from assms(1) have e: "m1 = m'" "d' = d\<lparr>medias := replace_media m' (medias d)\<rparr>"
    by (auto simp: media_save_def split: if_splits)
  from assms(3) have "i \<in> m_id ` set (medias d)" by (rule findMedia_stored)
  with assms(2) have "find (\<lambda>x. m_id x = i) (replace_media m' (medias d)) = Some m'"
    by (rule find_replace_media)
  with e show ?thesis by (simp add: findMedia_def)
qed

lemma guestbook_save_found:
  assumes "guestbook_save g' d = Inr (g1, d')" and "g_id g' = i" and "findEntry d i = Some g"
  shows "g1 = g' \<and> findEntry d' i = Some g'"
proof -
  from assms(1) have e: "g1 = g'" "d' = d\<lparr>guestbooks := replace_entry g' (guestbooks d)\<rparr>"
    by (auto simp: guestbook_save_def split: if_splits option.splits)
  from assms(3) have "i \<in> g_id ` set (guestbooks d)" by (rule findEntry_stored)
  with assms(2) have "find (\<lambda>x. g_id x = i) (replace_entry g' (guestbooks d)) = Some g'"
    by (rule find_replace_entry)
  with e show ?thesis by (simp add: findEntry_def)
qed

lemma comment_media_handler_Inr:
  assumes r: "comment_media_handler ev i gn msg d = Inr (d', effs)"
  shows "\<exists>m c. findMedia d i = Some m
           \<and> findMedia d' i = Some (m\<lparr>comments := comments m @ [c]\<rparr>)
           \<and> isApproved c = (\<not> moderateUploads ev)
           \<and> effs = (if isApproved c
                     then [Emit (e_id ev) (NewComment i (c_guestName c) (c_message c))]
                     else [])"
proof -
  let ?c = "\<lparr>c_guestName = trim (body_field gn), c_message = trim (body_field msg),
             isApproved = (\<not> moderateUploads ev)\<rparr>"
  from r obtain m where m: "findMedia d i = Some m"
    by (auto simp: comment_media_handler_def split: if_splits option.splits)
  let ?m' = "m\<lparr>comments := comments m @ [?c]\<rparr>"
  from r m obtain m1 where s: "media_save ?m' d = Inr (m1, d')"
    by (auto simp: comment_media_handler_def addComment_def Let_def trim_idem
             split: if_splits sum.splits)
  have id': "m_id ?m' = i" using m by (simp add: findMedia_id)
  from media_save_found [OF s id' m] have f: "m1 = ?m'" "findMedia d' i = Some ?m'" by auto
  from r m s f have "effs = (if \<not> moderateUploads ev
                     then [Emit (e_id ev) (NewComment i (trim (body_field gn)) (trim (body_field msg)))]
                     else [])"
    using id'
    by (auto simp: comment_media_handler_def addComment_def Let_def trim_idem
             split: if_splits sum.splits)
  with m f show ?thesis by (intro exI [of _ m] exI [of _ ?c]) simp
qed

lemma reply_entry_handler_Inr:
  assumes r: "reply_entry_handler ev i gn msg d = Inr (d', effs)"
  shows "\<exists>g c. findEntry d i = Some g
           \<and> findEntry d' i = Some (g\<lparr>replies := replies g @ [c]\<rparr>)
           \<and> isApproved c = (\<not> moderateUploads ev)
           \<and> effs = (if isApproved c
                     then [Emit (e_id ev) (NewGuestbookReply i (c_guestName c) (c_message c))]
                     else [])"
proof -
  let ?c = "\<lparr>c_guestName = trim (body_field gn), c_message = trim (body_field msg),
             isApproved = (\<not> moderateUploads ev)\<rparr>"
  from r obtain g where g: "findEntry d i = Some g"
    by (auto simp: reply_entry_handler_def split: if_splits option.splits)
  let ?g' = "g\<lparr>replies := replies g @ [?c]\<rparr>"
  from r g obtain g1 where s: "guestbook_save ?g' d = Inr (g1, d')"
    by (auto simp: reply_entry_handler_def addReply_def Let_def trim_idem
             split: if_splits sum.splits)
  have id': "g_id ?g' = i" using g by (simp add: findEntry_id)
  from guestbook_save_found [OF s id' g] have f: "g1 = ?g'" "findEntry d' i = Some ?g'" by auto
  from r g s f have "effs = (if \<not> moderateUploads ev
                     then [Emit (e_id ev) (NewGuestbookReply i (trim (body_field gn)) (trim (body_field msg)))]
                     else [])"
    using id'
    by (auto simp: reply_entry_handler_def addReply_def Let_def trim_idem
             split: if_splits sum.splits)
  with g f show ?thesis by (intro exI [of _ g] exI [of _ ?c]) simp
qed

lemma comment_routes_answer_not_found:
  "comment_media within_limit providedPassword mediaId guestName message d
     = Inl (NotFound ''Event not found or not available'')"
  "reply_entry within_limit providedPassword entryId guestName message d
     = Inl (NotFound ''Event not found or not available'')"
  by (simp_all add: comment_media_def reply_entry_def validateEventAccess_def)



section \<open>Approving an item\<close>

lemma apply_media_update_id [simp]: "m_id (apply_media_update up m) = m_id m"
  by (simp add: apply_media_update_def)

lemma apply_entry_update_id [simp]: "g_id (apply_entry_update up g) = g_id g"
  by (simp add: apply_entry_update_def)












section \<open>The status a submission starts with\<close>

lemma guest_doc_invalid: "\<not> media_valid (guest_media_doc new_id ev n body pending_promise)"
  by (simp add: media_valid_def guest_media_doc_def pending_promise_def)

lemma host_doc_invalid: "\<not> media_valid (host_media_doc new_id ev u body pending_promise)"
  by (simp add: media_valid_def host_media_doc_def pending_promise_def)

text \<open>
  With the metadata a pending Promise, every document of the upload routes lacks the
  required paths and is refused by \<open>save\<close>: the loops store nothing and push nothing.
\<close>

lemma guest_files_store_nothing:
  "guest_files storage_ok ev n body fs d effs up = (r, d', effs', up') \<Longrightarrow>
   d' = d \<and> up' = up"
  by (induction fs arbitrary: effs)
     (auto simp: media_save_new_def guest_doc_invalid split: if_splits)

lemma host_files_store_nothing:
  "host_files storage_ok ev u body fs d effs up = (r, d', effs', up') \<Longrightarrow>
   d' = d \<and> up' = up"
  by (induction fs arbitrary: effs)
     (auto simp: media_save_new_def host_doc_invalid split: if_splits)

lemma medias_update_event [simp]: "medias (update_event i f d) = medias d"
  by (simp add: update_event_def)

lemma guestbooks_update_event [simp]: "guestbooks (update_event i f d) = guestbooks d"
  by (simp add: update_event_def)

lemma guest_upload_medias:
  "guest_upload storage_ok ev err files body d = (r, d', effs, up) \<Longrightarrow> medias d' = medias d"
  by (auto simp: guest_upload_def Let_def add_upload_stats_def
           split: option.splits if_splits prod.splits
           dest: guest_files_store_nothing)

lemma host_upload_medias:
  "host_upload storage_ok ev u err files body d = (r, d', effs, up) \<Longrightarrow> medias d' = medias d"
  by (auto simp: host_upload_def Let_def add_upload_stats_def
           split: option.splits if_splits prod.splits
           dest: host_files_store_nothing)

lemma store_entry_Inr:
  "store_entry ev entry d = Inr (d', effs, g) \<Longrightarrow> g = entry \<and> g \<in> set (guestbooks d')"
  by (auto simp: store_entry_def guestbook_save_new_def
           split: sum.splits if_splits option.splits)

lemma post_entry_Inr:
  "post_entry email_check ev body d = Inr (d', effs, g) \<Longrightarrow>
   g \<in> set (guestbooks d') \<and> g_status g = (if moderateUploads ev then ''pending'' else ''approved'')"
  by (auto simp: post_entry_def policy_status_def split: if_splits option.splits
           dest!: store_entry_Inr)

lemma post_audio_Inr:
  "post_audio ev err req_file body d = Inr (d', effs, g) \<Longrightarrow>
   g \<in> set (guestbooks d') \<and> g_status g = (if moderateUploads ev then ''pending'' else ''approved'')"
  by (auto simp: post_audio_def policy_status_def Let_def split: if_splits option.splits
           dest!: store_entry_Inr)

lemma upload_documents_status:
  "status (guest_media_doc new_id ev n body md)
     = (if moderateUploads ev then ''pending'' else ''approved'')"
  "status (host_media_doc new_id ev u body md) = ''approved''"
  by (simp_all add: guest_media_doc_def host_media_doc_def)

text \<open>
  Claim C2, at a concrete request. The claim: a host or photographer upload is stored
  with status \<open>approved\<close>, and a guest upload with \<open>pending\<close> or \<open>approved\<close> as the
  event's \<open>moderateUploads\<close> says. Both upload routes call the \<open>async\<close>
  \<open>extractMetadata\<close> without \<open>await\<close>, so the document they build carries the status
  (\<open>upload_documents_status\<close>) but none of the required paths, and \<open>save\<close> refuses it;
  the route catches and logs the error and answers 201 with an empty list. The host of
  event 1 uploads one photo, and a guest uploads one photo to event 2, which does not
  moderate: no media document is stored and no \<open>new-media\<close> message is published. (The
  guestbook routes do store their entries with the status the claim gives:
  \<open>post_entry_Inr\<close>, \<open>post_audio_Inr\<close>.)
\<close>

theorem uploads_store_no_media:
  "requireEventOwnership host10 (Some 1) db1 = Inr ev1
   \<and> host_upload (\<lambda>p. True) ev1 host10 None [file1] upload_body1 db1
       = (None, db1, [LogError], [])
   \<and> validateEventAccess (Some 2) None db1 = Inr ev2
   \<and> guest_upload (\<lambda>p. True) ev2 None [file1] upload_body1 db1
       = (None, db1, [LogError], [])"
  by code_simp

text \<open>
  A guestbook message by Eve is stored as \<open>pending\<close> and announced to nobody in
  event 1, which moderates, and stored as \<open>approved\<close> and announced in event 2, which
  does not.
\<close>

lemma post_entry_stores_policy_status:
  "map_sum id (\<lambda>r. (fst (snd r), g_status (snd (snd r)))) (post_entry Some ev1 entry_body1 db1)
     = Inr ([], ''pending'')
   \<and> map_sum id (\<lambda>r. (map (\<lambda>x. case x of Emit room msg \<Rightarrow> room | _ \<Rightarrow> 0) (fst (snd r)),
                        g_status (snd (snd r)))) (post_entry Some ev2 entry_body1 db1)
     = Inr ([2], ''approved'')"
  by code_simp

end
